theory Spec2Isabelle
  imports Complex_Main "HOL-Library.Finite_Map"
begin

section \<open>The construction space engine of the NERV geometry API\<close>

text \<open>
  A shallow embedding of \<^verbatim>\<open>app/services/rust_bridge.py\<close> (the bridge to the Rust
  geometry engine and its in-process fallback), of the construction endpoints in
  \<^verbatim>\<open>app/api/v1/endpoints/construction.py\<close> and of the two pattern heuristics of
  \<^verbatim>\<open>app/api/v1/endpoints/collection.py\<close>.

  Conventions of the embedding:
  \<^item> a Python \<^verbatim>\<open>dict\<close> keyed by identifiers is a finite map; \<^verbatim>\<open>len(d)\<close> is
    \<open>fcard (fmdom d)\<close>, \<^verbatim>\<open>k in d\<close> is \<open>k |\<in>| fmdom d\<close> and \<^verbatim>\<open>d[k] = v\<close> is
    \<open>fmupd k v d\<close>;
  \<^item> a \<^verbatim>\<open>ConstructionSpace\<close> object is a cell of an object store (\<open>heap\<close>), and a
    Python variable holding a space is the index of its cell, so that an update in
    place and the aliasing of two variables are visible;
  \<^item> an exception is the \<open>Inl\<close> branch of the result; the store reached when it is
    raised is returned with it;
  \<^item> coordinates are stored and never computed with; they are reals here;
  \<^item> arguments have the types the signatures declare (\<^verbatim>\<open>x: float\<close>,
    \<^verbatim>\<open>label: Optional[str]\<close>), so the validation pydantic performs when a
    \<^verbatim>\<open>Point\<close>, \<^verbatim>\<open>Line\<close> or \<^verbatim>\<open>Circle\<close> is built always passes;
  \<^item> logging is left out;
  \<^item> a name of the source that starts with an underscore loses it.
\<close>

subsection \<open>Data model (rust\_bridge.py, lines 25-58)\<close>

text \<open>Values of type \<^verbatim>\<open>Any\<close>.\<close>

datatype any = ANone | ABool bool | ANum real | AStr string

record Point =
  p_id :: string
  p_x :: real
  p_y :: real
  p_label :: "string option"
  is_constructed :: bool
  p_dependencies :: "string list"

record Line =
  l_id :: string
  point1_id :: string
  point2_id :: string
  l_label :: "string option"
  l_dependencies :: "string list"

record Circle =
  c_id :: string
  center_id :: string
  radius_point_id :: string
  c_label :: "string option"
  c_dependencies :: "string list"

record ConstructionSpace =
  points :: "(string, Point) fmap"
  lines :: "(string, Line) fmap"
  circles :: "(string, Circle) fmap"
  history :: "(string \<times> any) list list"

text \<open>\<^verbatim>\<open>ConstructionSpace()\<close>: the empty space.\<close>

definition empty_space :: ConstructionSpace where
  "empty_space = \<lparr>points = fmempty, lines = fmempty, circles = fmempty, history = []\<rparr>"

subsection \<open>Errors (core/exceptions.py)\<close>

datatype error =
    GeometryEngineError string
  | ConstructionValidationError string

text \<open>\<^verbatim>\<open>str(e)\<close>: each class prefixes the message it is built with.\<close>

fun error_str :: "error \<Rightarrow> string" where
  "error_str (GeometryEngineError message) = ''Geometry engine error: '' @ message"
| "error_str (ConstructionValidationError message) =
     ''Construction validation failed: '' @ message"

text \<open>\<^verbatim>\<open>HTTPException(status_code, detail)\<close>.\<close>

datatype http_error = HTTPException nat string

subsection \<open>The external engine, the service and the world\<close>

text \<open>
  The step handed to \<^verbatim>\<open>validate_construction\<close> is the dictionary built by the
  endpoints, with the keys \<^verbatim>\<open>step_type\<close>, \<^verbatim>\<open>dependencies\<close> and \<^verbatim>\<open>metadata\<close>. Of the
  metadata bag the code reads the keys \<^verbatim>\<open>x\<close>, \<^verbatim>\<open>y\<close> and \<^verbatim>\<open>label\<close>; a key that is
  absent is \<open>None\<close>. The bag is declared \<^verbatim>\<open>Dict[str, Any]\<close>: a value of \<^verbatim>\<open>x\<close> or \<^verbatim>\<open>y\<close>
  that is null or no number, or a label that is no string, with which pydantic refuses
  to build the point, line or circle (a \<^verbatim>\<open>ValidationError\<close>, so that the step fails), has
  no counterpart in this record: the properties below are about bags whose three values
  have the declared types.
\<close>

record step_metadata =
  meta_x :: "real option"
  meta_y :: "real option"
  meta_label :: "string option"

record step_data =
  sd_step_type :: string
  sd_dependencies :: "string list"
  sd_metadata :: step_metadata

text \<open>
  The Rust binary is outside the repository. Each field is what one command, sent by
  \<^verbatim>\<open>_execute_rust_command\<close> and decoded by the caller, comes to: \<open>Inl s\<close> when anything in
  the caller's \<^verbatim>\<open>try\<close> block raised an exception \<open>e\<close> with \<^verbatim>\<open>str(e) = s\<close> (the process
  failed, answered nothing or not JSON, or the answer lacks a key), \<open>Inr\<close> the decoded
  answer otherwise. For \<^verbatim>\<open>health_check\<close> the answer is \<^verbatim>\<open>result.get("status")\<close>.
\<close>

record rust_engine =
  rust_health_check :: "string + string option"
  rust_create_construction_space :: "string + ConstructionSpace"
  rust_add_point ::
    "ConstructionSpace \<Rightarrow> real \<Rightarrow> real \<Rightarrow> string option \<Rightarrow> string + string \<times> ConstructionSpace"
  rust_construct_line ::
    "ConstructionSpace \<Rightarrow> string \<Rightarrow> string \<Rightarrow> string option \<Rightarrow> string + string \<times> ConstructionSpace"
  rust_construct_circle ::
    "ConstructionSpace \<Rightarrow> string \<Rightarrow> string \<Rightarrow> string option \<Rightarrow> string + string \<times> ConstructionSpace"
  rust_find_intersections ::
    "ConstructionSpace \<Rightarrow> string \<Rightarrow> string \<Rightarrow> string + Point list \<times> ConstructionSpace"
  rust_validate_construction :: "ConstructionSpace \<Rightarrow> step_data \<Rightarrow> string + bool"

text \<open>
  \<^verbatim>\<open>RustGeometryService\<close>: \<open>rust_binary_path\<close> is \<open>None\<close> in fallback mode and the
  engine found at the path otherwise.
\<close>

record RustGeometryService =
  rust_binary_path :: "rust_engine option"

text \<open>
  The world the service runs in: the store of space objects, the identifiers
  \<^verbatim>\<open>uuid.uuid4()\<close> will return (\<open>uuid_pool\<close>, the \<open>k\<close>-th call returns \<open>uuid_pool k\<close>) with
  the number of calls made so far, and the commands sent to the engine so far.
\<close>

record world =
  heap :: "ConstructionSpace list"
  uuid_pool :: "nat \<Rightarrow> string"
  uuid_count :: nat
  rust_calls :: "string list"

text \<open>\<^verbatim>\<open>str(uuid.uuid4())\<close>.\<close>

definition uuid4 :: "world \<Rightarrow> string \<times> world" where
  "uuid4 w = (uuid_pool w (uuid_count w), w\<lparr>uuid_count := Suc (uuid_count w)\<rparr>)"

text \<open>
  A new space object, as \<^verbatim>\<open>ConstructionSpace(**...)\<close> and \<^verbatim>\<open>.copy(deep=True)\<close> make one:
  a new cell, whose index is returned.
\<close>

definition new_space :: "ConstructionSpace \<Rightarrow> world \<Rightarrow> nat \<times> world" where
  "new_space s w = (length (heap w), w\<lparr>heap := heap w @ [s]\<rparr>)"

text \<open>Reading the object a variable refers to.\<close>

definition deref :: "world \<Rightarrow> nat \<Rightarrow> ConstructionSpace" where
  "deref w r = heap w ! r"

text \<open>An update of the object in place: \<^verbatim>\<open>construction_space.points[k] = v\<close> and so on.\<close>

definition update_space ::
  "nat \<Rightarrow> (ConstructionSpace \<Rightarrow> ConstructionSpace) \<Rightarrow> world \<Rightarrow> world" where
  "update_space r f w = w\<lparr>heap := (heap w)[r := f (heap w ! r)]\<rparr>"

text \<open>\<^verbatim>\<open>_execute_rust_command\<close> starts a process: the command is logged.\<close>

definition execute_rust_command :: "string \<Rightarrow> world \<Rightarrow> world" where
  "execute_rust_command command w = w\<lparr>rust_calls := rust_calls w @ [command]\<rparr>"

subsection \<open>The bridge (rust\_bridge.py, lines 92-301)\<close>

definition health_check :: "RustGeometryService \<Rightarrow> world \<Rightarrow> bool \<times> world" where
  "health_check svc w =
     (case rust_binary_path svc of
        None \<Rightarrow> (True, w)
      | Some engine \<Rightarrow>
          (let w1 = execute_rust_command ''health_check'' w in
           case rust_health_check engine of
             Inl e \<Rightarrow> (False, w1)
           | Inr st \<Rightarrow> (st = Some ''healthy'', w1)))"

definition create_construction_space :: "RustGeometryService \<Rightarrow> world \<Rightarrow> nat \<times> world" where
  "create_construction_space svc w =
     (case rust_binary_path svc of
        None \<Rightarrow> new_space empty_space w
      | Some engine \<Rightarrow>
          (let w1 = execute_rust_command ''create_construction_space'' w in
           case rust_create_construction_space engine of
             Inl e \<Rightarrow> new_space empty_space w1
           | Inr s \<Rightarrow> new_space s w1))"

definition add_point ::
  "RustGeometryService \<Rightarrow> nat \<Rightarrow> real \<Rightarrow> real \<Rightarrow> string option \<Rightarrow> world
     \<Rightarrow> (error + string \<times> nat) \<times> world" where
  "add_point svc construction_space x y label w =
     (case rust_binary_path svc of
        None \<Rightarrow>
          (let (point_id, w1) = uuid4 w;
               point = \<lparr>p_id = point_id, p_x = x, p_y = y, p_label = label,
                        is_constructed = False, p_dependencies = []\<rparr>;
               w2 = update_space construction_space
                      (\<lambda>s. s\<lparr>points := fmupd point_id point (points s)\<rparr>) w1
           in (Inr (point_id, construction_space), w2))
      | Some engine \<Rightarrow>
          (let w1 = execute_rust_command ''add_point'' w in
           case rust_add_point engine (deref w construction_space) x y label of
             Inl e \<Rightarrow> (Inl (GeometryEngineError (''Failed to add point: '' @ e)), w1)
           | Inr (point_id, s) \<Rightarrow>
               (let (updated_space, w2) = new_space s w1
                in (Inr (point_id, updated_space), w2))))"

definition construct_line ::
  "RustGeometryService \<Rightarrow> nat \<Rightarrow> string \<Rightarrow> string \<Rightarrow> string option \<Rightarrow> world
     \<Rightarrow> (error + string \<times> nat) \<times> world" where
  "construct_line svc construction_space p1 p2 label w =
     (if p1 |\<notin>| fmdom (points (deref w construction_space))
      then (Inl (GeometryEngineError (''Point not found: '' @ p1)), w)
      else if p2 |\<notin>| fmdom (points (deref w construction_space))
      then (Inl (GeometryEngineError (''Point not found: '' @ p2)), w)
      else if p1 = p2
      then (Inl (GeometryEngineError ''Cannot create line with identical points''), w)
      else
        (case rust_binary_path svc of
           None \<Rightarrow>
             (let (line_id, w1) = uuid4 w;
                  line = \<lparr>l_id = line_id, point1_id = p1, point2_id = p2, l_label = label,
                          l_dependencies = [p1, p2]\<rparr>;
                  w2 = update_space construction_space
                         (\<lambda>s. s\<lparr>lines := fmupd line_id line (lines s)\<rparr>) w1
              in (Inr (line_id, construction_space), w2))
         | Some engine \<Rightarrow>
             (let w1 = execute_rust_command ''construct_line'' w in
              case rust_construct_line engine (deref w construction_space) p1 p2 label of
                Inl e \<Rightarrow> (Inl (GeometryEngineError (''Failed to construct line: '' @ e)), w1)
              | Inr (line_id, s) \<Rightarrow>
                  (let (updated_space, w2) = new_space s w1
                   in (Inr (line_id, updated_space), w2)))))"

definition construct_circle ::
  "RustGeometryService \<Rightarrow> nat \<Rightarrow> string \<Rightarrow> string \<Rightarrow> string option \<Rightarrow> world
     \<Rightarrow> (error + string \<times> nat) \<times> world" where
  "construct_circle svc construction_space center radius_point label w =
     (if center |\<notin>| fmdom (points (deref w construction_space))
      then (Inl (GeometryEngineError (''Point not found: '' @ center)), w)
      else if radius_point |\<notin>| fmdom (points (deref w construction_space))
      then (Inl (GeometryEngineError (''Point not found: '' @ radius_point)), w)
      else if center = radius_point
      then (Inl (GeometryEngineError ''Center and radius point cannot be the same''), w)
      else
        (case rust_binary_path svc of
           None \<Rightarrow>
             (let (circle_id, w1) = uuid4 w;
                  circle = \<lparr>c_id = circle_id, center_id = center,
                            radius_point_id = radius_point, c_label = label,
                            c_dependencies = [center, radius_point]\<rparr>;
                  w2 = update_space construction_space
                         (\<lambda>s. s\<lparr>circles := fmupd circle_id circle (circles s)\<rparr>) w1
              in (Inr (circle_id, construction_space), w2))
         | Some engine \<Rightarrow>
             (let w1 = execute_rust_command ''construct_circle'' w in
              case rust_construct_circle engine (deref w construction_space)
                     center radius_point label of
                Inl e \<Rightarrow> (Inl (GeometryEngineError (''Failed to construct circle: '' @ e)), w1)
              | Inr (circle_id, s) \<Rightarrow>
                  (let (updated_space, w2) = new_space s w1
                   in (Inr (circle_id, updated_space), w2)))))"

definition find_intersections ::
  "RustGeometryService \<Rightarrow> nat \<Rightarrow> string \<Rightarrow> string \<Rightarrow> world
     \<Rightarrow> (error + Point list \<times> nat) \<times> world" where
  "find_intersections svc construction_space obj1_id obj2_id w =
     (case rust_binary_path svc of
        None \<Rightarrow> (Inr ([], construction_space), w)
      | Some engine \<Rightarrow>
          (let w1 = execute_rust_command ''find_intersections'' w in
           case rust_find_intersections engine (deref w construction_space) obj1_id obj2_id of
             Inl e \<Rightarrow> (Inl (GeometryEngineError (''Failed to find intersections: '' @ e)), w1)
           | Inr (intersections, s) \<Rightarrow>
               (let (updated_space, w2) = new_space s w1
                in (Inr (intersections, updated_space), w2))))"

definition validate_construction ::
  "RustGeometryService \<Rightarrow> nat \<Rightarrow> step_data \<Rightarrow> world \<Rightarrow> (error + bool) \<times> world" where
  "validate_construction svc construction_space step w =
     (case rust_binary_path svc of
        None \<Rightarrow>
          (if sd_step_type step = ''add_point'' then (Inr True, w)
           else if sd_step_type step \<in> set [''construct_line'', ''construct_circle'']
           then (Inr (list_all (\<lambda>dep. dep |\<in>| fmdom (points (deref w construction_space)))
                        (sd_dependencies step)), w)
           else (Inr True, w))
      | Some engine \<Rightarrow>
          (let w1 = execute_rust_command ''validate_construction'' w in
           case rust_validate_construction engine (deref w construction_space) step of
             Inl e \<Rightarrow> (Inl (GeometryEngineError (''Failed to validate construction: '' @ e)), w1)
           | Inr is_valid \<Rightarrow> (Inr is_valid, w1)))"

subsection \<open>Requests and responses (construction.py, lines 18-37)\<close>

record ConstructionStep =
  step_number :: int
  step_type :: string
  description :: string
  dependencies :: "string list"
  created_objects :: "string list"
  metadata :: step_metadata

record ConstructionSequence =
  seq_name :: string
  seq_description :: string
  steps :: "ConstructionStep list"
  target_theorem :: "string option"

text \<open>The dictionary both validation endpoints build from a step.\<close>

definition step_data_of :: "ConstructionStep \<Rightarrow> step_data" where
  "step_data_of step =
     \<lparr>sd_step_type = step_type step, sd_dependencies = dependencies step,
      sd_metadata = metadata step\<rparr>"

text \<open>\<^verbatim>\<open>str(n)\<close> of a natural number, for the messages.\<close>

fun str_nat :: "nat \<Rightarrow> string" where
  "str_nat n =
     (if n < 10 then [char_of (48 + n)]
      else str_nat (n div 10) @ [char_of (48 + n mod 10)])"

declare str_nat.simps [simp del]

subsection \<open>Suggestions (construction.py, lines 338-362)\<close>

text \<open>The first loop: one suggestion for each dependency that names no object.\<close>

fun missing_suggestions :: "ConstructionSpace \<Rightarrow> string list \<Rightarrow> string list" where
  "missing_suggestions construction_space [] = []"
| "missing_suggestions construction_space (dep_id # deps) =
     (if dep_id |\<notin>| fmdom (points construction_space) \<and>
         dep_id |\<notin>| fmdom (lines construction_space) \<and>
         dep_id |\<notin>| fmdom (circles construction_space)
      then [''Required object '' @ [CHR 0x27] @ dep_id @ [CHR 0x27] @
              '' does not exist in construction space'']
      else [])
     @ missing_suggestions construction_space deps"

definition get_validation_suggestions ::
  "ConstructionStep \<Rightarrow> ConstructionSpace \<Rightarrow> string list" where
  "get_validation_suggestions step construction_space =
     missing_suggestions construction_space (dependencies step) @
     (if step_type step = ''construct_line'' then
        (if length (dependencies step) \<noteq> 2
         then [''Line construction requires exactly 2 point dependencies'']
         else if dependencies step ! 0 = dependencies step ! 1
         then [''Cannot construct line with identical points'']
         else [])
      else if step_type step = ''construct_circle'' then
        (if length (dependencies step) \<noteq> 2
         then [''Circle construction requires exactly 2 point dependencies (center and radius point)'']
         else if dependencies step ! 0 = dependencies step ! 1
         then [''Center and radius point cannot be the same'']
         else [])
      else [])"

subsection \<open>validate-step (construction.py, lines 48-85)\<close>

record validation_response =
  vr_is_valid :: bool
  vr_step :: ConstructionStep
  vr_validation_message :: string
  vr_suggestions :: "string list"

definition validate_construction_step ::
  "ConstructionStep \<Rightarrow> nat \<Rightarrow> RustGeometryService \<Rightarrow> world
     \<Rightarrow> (http_error + validation_response) \<times> world" where
  "validate_construction_step step construction_space rust_service w =
     (case validate_construction rust_service construction_space (step_data_of step) w of
        (Inl e, w1) \<Rightarrow> (Inl (HTTPException 422 (''Validation failed: '' @ error_str e)), w1)
      | (Inr is_valid, w1) \<Rightarrow>
          (Inr \<lparr>vr_is_valid = is_valid, vr_step = step,
                vr_validation_message = (if is_valid then ''Step is valid'' else ''Step is invalid''),
                vr_suggestions =
                  (if \<not> is_valid
                   then get_validation_suggestions step (deref w1 construction_space)
                   else [])\<rparr>, w1))"

subsection \<open>validate-sequence (construction.py, lines 92-157)\<close>






subsection \<open>execute-sequence (construction.py, lines 164-228 and 364-438)\<close>

text \<open>The dictionary a step returns: \<^verbatim>\<open>created_id\<close> or \<^verbatim>\<open>intersections\<close>, the space and a type.\<close>

record step_result =
  created_id :: "string option"
  intersections :: "Point list option"
  updated_space :: nat
  result_type :: string

definition execute_construction_step ::
  "ConstructionStep \<Rightarrow> nat \<Rightarrow> RustGeometryService \<Rightarrow> world
     \<Rightarrow> (error + step_result) \<times> world" where
  "execute_construction_step step construction_space rust_service w =
     (if step_type step = ''add_point'' then
        (let x = (case meta_x (metadata step) of None \<Rightarrow> 0 | Some v \<Rightarrow> v);
             y = (case meta_y (metadata step) of None \<Rightarrow> 0 | Some v \<Rightarrow> v);
             label = meta_label (metadata step)
         in case add_point rust_service construction_space x y label w of
              (Inl e, w1) \<Rightarrow> (Inl e, w1)
            | (Inr (point_id, space1), w1) \<Rightarrow>
                (Inr \<lparr>created_id = Some point_id, intersections = None,
                      updated_space = space1, result_type = ''point''\<rparr>, w1))
      else if step_type step = ''construct_line'' then
        (if length (dependencies step) \<noteq> 2
         then (Inl (ConstructionValidationError ''Line requires exactly 2 points''), w)
         else case construct_line rust_service construction_space
                     (dependencies step ! 0) (dependencies step ! 1)
                     (meta_label (metadata step)) w of
                (Inl e, w1) \<Rightarrow> (Inl e, w1)
              | (Inr (line_id, space1), w1) \<Rightarrow>
                  (Inr \<lparr>created_id = Some line_id, intersections = None,
                        updated_space = space1, result_type = ''line''\<rparr>, w1))
      else if step_type step = ''construct_circle'' then
        (if length (dependencies step) \<noteq> 2
         then (Inl (ConstructionValidationError ''Circle requires exactly 2 points''), w)
         else case construct_circle rust_service construction_space
                     (dependencies step ! 0) (dependencies step ! 1)
                     (meta_label (metadata step)) w of
                (Inl e, w1) \<Rightarrow> (Inl e, w1)
              | (Inr (circle_id, space1), w1) \<Rightarrow>
                  (Inr \<lparr>created_id = Some circle_id, intersections = None,
                        updated_space = space1, result_type = ''circle''\<rparr>, w1))
      else if step_type step = ''find_intersections'' then
        (if length (dependencies step) \<noteq> 2
         then (Inl (ConstructionValidationError
                      ''Intersection requires exactly 2 geometric objects''), w)
         else case find_intersections rust_service construction_space
                     (dependencies step ! 0) (dependencies step ! 1) w of
                (Inl e, w1) \<Rightarrow> (Inl e, w1)
              | (Inr (found, space1), w1) \<Rightarrow>
                  (Inr \<lparr>created_id = None, intersections = Some found,
                        updated_space = space1, result_type = ''intersections''\<rparr>, w1))
      else (Inl (ConstructionValidationError (''Unknown step type: '' @ step_type step)), w))"

text \<open>One entry of \<^verbatim>\<open>execution_results\<close>.\<close>

record execution_result =
  ex_step_number :: nat
  ex_step :: ConstructionStep
  success :: bool
  ex_result :: "step_result option"
  ex_error :: "string option"
  ex_message :: string

record execution_summary =
  total_steps :: nat
  successful_steps :: nat
  failed_steps :: nat
  overall_success :: bool

record sequence_execution =
  se_sequence :: ConstructionSequence
  final_construction_space :: nat
  execution_results :: "execution_result list"
  se_summary :: execution_summary

text \<open>
  The loop over \<^verbatim>\<open>enumerate(sequence.steps)\<close>. Every result has the key
  \<^verbatim>\<open>updated_space\<close>, so \<open>current_space\<close> is assigned after every step that succeeds; the
  first exception is recorded and ends the loop. Nothing raises outside the inner
  \<^verbatim>\<open>try\<close>, so the handler that answers with status 500 is never entered and the
  function always returns its report.
\<close>

fun execute_loop ::
  "RustGeometryService \<Rightarrow> nat \<Rightarrow> ConstructionStep list \<Rightarrow> nat \<Rightarrow> execution_result list
     \<Rightarrow> world \<Rightarrow> (nat \<times> execution_result list) \<times> world" where
  "execute_loop rust_service i [] current_space results w = ((current_space, results), w)"
| "execute_loop rust_service i (step # rest) current_space results w =
     (case execute_construction_step step current_space rust_service w of
        (Inr result, w1) \<Rightarrow>
          execute_loop rust_service (i + 1) rest (updated_space result)
            (results @
             [\<lparr>ex_step_number = i + 1, ex_step = step, success = True,
               ex_result = Some result, ex_error = None,
               ex_message = ''Step '' @ str_nat (i + 1) @ '' executed successfully''\<rparr>]) w1
      | (Inl step_error, w1) \<Rightarrow>
          ((current_space,
            results @
            [\<lparr>ex_step_number = i + 1, ex_step = step, success = False,
              ex_result = None, ex_error = Some (error_str step_error),
              ex_message = ''Step '' @ str_nat (i + 1) @ '' failed: '' @ error_str step_error\<rparr>]),
           w1))"

definition execute_construction_sequence ::
  "ConstructionSequence \<Rightarrow> nat \<Rightarrow> RustGeometryService \<Rightarrow> world
     \<Rightarrow> sequence_execution \<times> world" where
  "execute_construction_sequence sequence initial_construction_space rust_service w =
     (let (current_space0, w0) = new_space (deref w initial_construction_space) w in
      case execute_loop rust_service 0 (steps sequence) current_space0 [] w0 of
        ((current_space, results), w1) \<Rightarrow>
          (let success_count = length (filter success results) in
           (\<lparr>se_sequence = sequence,
             final_construction_space = current_space,
             execution_results = results,
             se_summary =
               \<lparr>total_steps = length (steps sequence),
                successful_steps = success_count,
                failed_steps = length results - success_count,
                overall_success = (success_count = length (steps sequence))\<rparr>\<rparr>, w1)))"

subsection \<open>Pattern heuristics (collection.py, lines 412-461)\<close>

text \<open>
  Of a \<^verbatim>\<open>CollectionElement\<close> the heuristic reads the identifier and the requirements; the
  optional fields \<^verbatim>\<open>construction_template\<close> and \<^verbatim>\<open>discovery_date\<close> are left out.
\<close>

record CollectionElement =
  el_id :: string
  el_name :: string
  el_description :: string
  category :: string
  rarity :: string
  unlock_requirements :: "string list"
  is_unlocked :: bool
  usage_count :: int

definition can_unlock_element :: "CollectionElement \<Rightarrow> ConstructionSpace \<Rightarrow> bool" where
  "can_unlock_element element construction_space =
     (if unlock_requirements element = [] then True
      else if el_id element = ''line_segment''
      then fcard (fmdom (lines construction_space)) > 0
      else if el_id element = ''circle''
      then fcard (fmdom (circles construction_space)) > 0
      else if el_id element = ''equilateral_triangle''
      then fcard (fmdom (lines construction_space)) \<ge> 3 \<and>
           fcard (fmdom (circles construction_space)) \<ge> 2
      else if el_id element = ''perpendicular_bisector''
      then fcard (fmdom (lines construction_space)) \<ge> 2 \<and>
           fcard (fmdom (circles construction_space)) \<ge> 2
      else False)"

record analysis =
  point_count :: nat
  line_count :: nat
  circle_count :: nat
  construction_steps :: nat
  identified_patterns :: "string list"

text \<open>The counts, then the four tests in the order of the source, each appending a name.\<close>

definition analyze_construction :: "ConstructionSpace \<Rightarrow> analysis" where
  "analyze_construction construction_space =
     (let pc = fcard (fmdom (points construction_space));
          lc = fcard (fmdom (lines construction_space));
          cc = fcard (fmdom (circles construction_space))
      in \<lparr>point_count = pc, line_count = lc, circle_count = cc,
          construction_steps = length (history construction_space),
          identified_patterns =
            (if lc = 3 \<and> cc \<ge> 2 \<and> pc \<ge> 3 then [''equilateral_triangle''] else []) @
            (if lc \<ge> 2 \<and> cc \<ge> 2 then [''perpendicular_bisector''] else []) @
            (if cc \<ge> 1 then [''circle''] else []) @
            (if lc \<ge> 1 then [''line_segment''] else [])\<rparr>)"

subsection \<open>Example values\<close>

text \<open>A service in fallback mode, and one whose engine answers as written here.\<close>

definition fallback_service :: RustGeometryService where
  "fallback_service = \<lparr>rust_binary_path = None\<rparr>"

definition mk_point :: "string \<Rightarrow> real \<Rightarrow> real \<Rightarrow> Point" where
  "mk_point i a b =
     \<lparr>p_id = i, p_x = a, p_y = b, p_label = Some i, is_constructed = False,
      p_dependencies = []\<rparr>"

definition demo_engine :: rust_engine where
  "demo_engine =
     \<lparr>rust_health_check = Inr (Some ''healthy''),
      rust_create_construction_space = Inr empty_space,
      rust_add_point =
        (\<lambda>s a b l. Inr (''P'', s\<lparr>points := fmupd ''P'' (mk_point ''P'' a b) (points s)\<rparr>)),
      rust_construct_line = (\<lambda>s a b l. Inl ''rejected''),
      rust_construct_circle = (\<lambda>s a b l. Inl ''rejected''),
      rust_find_intersections = (\<lambda>s a b. Inr ([], s)),
      rust_validate_construction = (\<lambda>s d. Inr True)\<rparr>"

definition delegated_service :: RustGeometryService where
  "delegated_service = \<lparr>rust_binary_path = Some demo_engine\<rparr>"

text \<open>Lines and circles with no label.\<close>

definition mk_line :: "string \<Rightarrow> string \<Rightarrow> string \<Rightarrow> Line" where
  "mk_line i a b =
     \<lparr>l_id = i, point1_id = a, point2_id = b, l_label = None, l_dependencies = [a, b]\<rparr>"

definition mk_circle :: "string \<Rightarrow> string \<Rightarrow> string \<Rightarrow> Circle" where
  "mk_circle i a b =
     \<lparr>c_id = i, center_id = a, radius_point_id = b, c_label = None,
      c_dependencies = [a, b]\<rparr>"

text \<open>A service whose engine also draws lines and circles, under the names L and K.\<close>

definition drawing_engine :: rust_engine where
  "drawing_engine =
     demo_engine
       \<lparr>rust_construct_line :=
          (\<lambda>s a b l. Inr (''L'', s\<lparr>lines := fmupd ''L'' (mk_line ''L'' a b) (lines s)\<rparr>)),
        rust_construct_circle :=
          (\<lambda>s a b l. Inr (''K'', s\<lparr>circles := fmupd ''K'' (mk_circle ''K'' a b) (circles s)\<rparr>))\<rparr>"

definition drawing_service :: RustGeometryService where
  "drawing_service = \<lparr>rust_binary_path = Some drawing_engine\<rparr>"

text \<open>A service whose engine does not answer the health check.\<close>

definition unhealthy_service :: RustGeometryService where
  "unhealthy_service =
     \<lparr>rust_binary_path = Some (demo_engine\<lparr>rust_health_check := Inl ''no answer''\<rparr>)\<rparr>"

text \<open>A space with the points A and B, and a world that holds it in cell 0.\<close>

definition space_AB :: ConstructionSpace where
  "space_AB =
     \<lparr>points = fmupd ''B'' (mk_point ''B'' 100 0) (fmupd ''A'' (mk_point ''A'' 0 0) fmempty),
      lines = fmempty, circles = fmempty, history = []\<rparr>"

definition world_AB :: world where
  "world_AB =
     \<lparr>heap = [space_AB], uuid_pool = (\<lambda>k. replicate (Suc k) (CHR ''u'')),
      uuid_count = 0, rust_calls = []\<rparr>"

definition no_metadata :: step_metadata where
  "no_metadata = \<lparr>meta_x = None, meta_y = None, meta_label = None\<rparr>"

definition mk_step :: "int \<Rightarrow> string \<Rightarrow> string list \<Rightarrow> ConstructionStep" where
  "mk_step n t deps =
     \<lparr>step_number = n, step_type = t, description = t, dependencies = deps,
      created_objects = [], metadata = no_metadata\<rparr>"

text \<open>A space with three points, four lines and two circles.\<close>

definition space_four_lines :: ConstructionSpace where
  "space_four_lines =
     \<lparr>points = fmupd ''C'' (mk_point ''C'' 50 87) (points space_AB),
      lines = fmupd ''l4'' (mk_line ''l4'' ''A'' ''B'')
                (fmupd ''l3'' (mk_line ''l3'' ''C'' ''A'')
                  (fmupd ''l2'' (mk_line ''l2'' ''B'' ''C'')
                    (fmupd ''l1'' (mk_line ''l1'' ''A'' ''B'') fmempty))),
      circles = fmupd ''c2'' (mk_circle ''c2'' ''B'' ''A'')
                  (fmupd ''c1'' (mk_circle ''c1'' ''A'' ''B'') fmempty),
      history = []\<rparr>"

definition triangle_element :: CollectionElement where
  "triangle_element =
     \<lparr>el_id = ''equilateral_triangle'', el_name = ''Equilateral Triangle'',
      el_description = ''A triangle with all sides equal'', category = ''polygon'',
      rarity = ''uncommon'', unlock_requirements = [''line_segment'', ''circle''],
      is_unlocked = False, usage_count = 0\<rparr>"

text \<open>Two triangle spaces that differ in the name of one line only.\<close>

definition triangle_space :: "string \<Rightarrow> ConstructionSpace" where
  "triangle_space l =
     \<lparr>points = fmupd ''C'' (mk_point ''C'' 50 87) (points space_AB),
      lines = fmupd l (mk_line l ''C'' ''A'')
                (fmupd ''l2'' (mk_line ''l2'' ''B'' ''C'')
                  (fmupd ''l1'' (mk_line ''l1'' ''A'' ''B'') fmempty)),
      circles = fmupd ''c2'' (mk_circle ''c2'' ''B'' ''A'')
                  (fmupd ''c1'' (mk_circle ''c1'' ''A'' ''B'') fmempty),
      history = []\<rparr>"

text \<open>A sequence whose second step names a point Z that does not exist.\<close>

definition demo_sequence :: ConstructionSequence where
  "demo_sequence =
     \<lparr>seq_name = ''demo'', seq_description = ''a line, a bad line, a point'',
      steps = [mk_step 1 ''construct_line'' [''A'', ''B''],
               mk_step 2 ''construct_line'' [''A'', ''Z''],
               mk_step 3 ''add_point'' []],
      target_theorem = None\<rparr>"

text \<open>A sequence of four steps that all succeed on the space with the points A and B.\<close>

definition build_sequence :: ConstructionSequence where
  "build_sequence =
     \<lparr>seq_name = ''build'', seq_description = ''a point, a line, a circle, an intersection'',
      steps = [mk_step 1 ''add_point'' [],
               mk_step 2 ''construct_line'' [''A'', ''B''],
               mk_step 3 ''construct_circle'' [''A'', ''B''],
               mk_step 4 ''find_intersections'' [''A'', ''B'']],
      target_theorem = None\<rparr>"

subsection \<open>Notions used to state the properties\<close>

text \<open>The number of steps of a given type.\<close>

definition count_steps :: "string \<Rightarrow> ConstructionStep list \<Rightarrow> nat" where
  "count_steps t sts = length (filter (\<lambda>s. step_type s = t) sts)"

text \<open>The identifiers created by the steps of a report, in the order of the report.\<close>

definition created_ids :: "execution_result list \<Rightarrow> string list" where
  "created_ids results =
     List.map_filter (\<lambda>e. case ex_result e of None \<Rightarrow> None | Some res \<Rightarrow> created_id res) results"

text \<open>
  The next \<open>n\<close> identifiers that \<^verbatim>\<open>uuid4\<close> returns are pairwise different and are not keys of
  the space in cell \<open>c\<close>: what the uniqueness of UUIDs gives for a run of \<open>n\<close> steps.
\<close>

definition fresh_ids :: "world \<Rightarrow> nat \<Rightarrow> nat \<Rightarrow> bool" where
  "fresh_ids w c n \<longleftrightarrow>
     inj_on (uuid_pool w) {uuid_count w ..< uuid_count w + n} \<and>
     (\<forall>k \<in> {uuid_count w ..< uuid_count w + n}.
        uuid_pool w k |\<notin>| fmdom (points (deref w c)) \<and>
        uuid_pool w k |\<notin>| fmdom (lines (deref w c)) \<and>
        uuid_pool w k |\<notin>| fmdom (circles (deref w c)))"

text \<open>
  What a run in delegated mode comes to, on space values: \<open>engine_step\<close> is the space the
  engine returns for one step sent with the space \<open>s\<close>, after the checks the bridge and the
  executor make before they delegate (\<open>None\<close> when the step fails); \<open>engine_run\<close> sends the
  steps in order, each with the space returned for the step before.
\<close>

definition engine_step ::
  "rust_engine \<Rightarrow> ConstructionSpace \<Rightarrow> ConstructionStep \<Rightarrow> ConstructionSpace option" where
  "engine_step engine s step =
     (if step_type step = ''add_point'' then
        (case rust_add_point engine s
                (case meta_x (metadata step) of None \<Rightarrow> 0 | Some v \<Rightarrow> v)
                (case meta_y (metadata step) of None \<Rightarrow> 0 | Some v \<Rightarrow> v)
                (meta_label (metadata step)) of
           Inl e \<Rightarrow> None
         | Inr (i, s') \<Rightarrow> Some s')
      else if step_type step = ''construct_line'' then
        (if length (dependencies step) \<noteq> 2 \<or>
            dependencies step ! 0 |\<notin>| fmdom (points s) \<or>
            dependencies step ! 1 |\<notin>| fmdom (points s) \<or>
            dependencies step ! 0 = dependencies step ! 1
         then None
         else case rust_construct_line engine s (dependencies step ! 0) (dependencies step ! 1)
                     (meta_label (metadata step)) of
                Inl e \<Rightarrow> None
              | Inr (i, s') \<Rightarrow> Some s')
      else if step_type step = ''construct_circle'' then
        (if length (dependencies step) \<noteq> 2 \<or>
            dependencies step ! 0 |\<notin>| fmdom (points s) \<or>
            dependencies step ! 1 |\<notin>| fmdom (points s) \<or>
            dependencies step ! 0 = dependencies step ! 1
         then None
         else case rust_construct_circle engine s (dependencies step ! 0) (dependencies step ! 1)
                     (meta_label (metadata step)) of
                Inl e \<Rightarrow> None
              | Inr (i, s') \<Rightarrow> Some s')
      else if step_type step = ''find_intersections'' then
        (if length (dependencies step) \<noteq> 2 then None
         else case rust_find_intersections engine s (dependencies step ! 0)
                     (dependencies step ! 1) of
                Inl e \<Rightarrow> None
              | Inr (found, s') \<Rightarrow> Some s')
      else None)"

fun engine_run ::
  "rust_engine \<Rightarrow> ConstructionSpace \<Rightarrow> ConstructionStep list \<Rightarrow> ConstructionSpace option" where
  "engine_run engine s [] = Some s"
| "engine_run engine s (step # rest) =
     (case engine_step engine s step of
        None \<Rightarrow> None
      | Some s' \<Rightarrow> engine_run engine s' rest)"


section \<open>Properties of the bridge\<close>

subsection \<open>Reading and writing the store\<close>

lemma deref_update_space_same:
  "r < length (heap w) \<Longrightarrow> deref (update_space r f w) r = f (deref w r)"
  by (simp add: deref_def update_space_def)

lemma deref_uuid_count [simp]: "deref (w\<lparr>uuid_count := n\<rparr>) r = deref w r"
  by (simp add: deref_def)

subsection \<open>Intersections in fallback mode\<close>

text \<open>
  Claim C8. In fallback mode \<open>find_intersections\<close> returns the empty list of
  intersections for every space and every two identifiers. The space it returns is the
  caller's object itself and the world is the one it was called in, so the returned space
  equals the given one in every component (its history included).
\<close>

theorem find_intersections_fallback:
  assumes "rust_binary_path svc = None"
  shows "find_intersections svc r obj1 obj2 w = (Inr ([], r), w)"
  using assms by (simp add: find_intersections_def)

theorem find_intersections_fallback_witness:
  "rust_binary_path fallback_service = None \<and>
   find_intersections fallback_service 0 ''A'' ''B'' world_AB = (Inr ([], 0), world_AB)"
  using find_intersections_fallback [of fallback_service 0 "''A''" "''B''" world_AB]
  by (simp add: fallback_service_def)

subsection \<open>Lines and circles in fallback mode\<close>

text \<open>
  Claim C10. Let \<open>p1\<close> and \<open>p2\<close> be distinct identifiers of points of the space held in
  cell \<open>r\<close>. In fallback mode \<open>construct_line\<close> succeeds, returns the same object, and
  binds the generated identifier in the lines mapping to the line with \<open>point1_id = p1\<close>,
  \<open>point2_id = p2\<close> and dependencies \<open>[p1, p2]\<close>; points, circles and history are as
  before. When the generated identifier is new to the lines mapping (as a UUID is), the
  mapping has exactly one line more. \<open>construct_circle\<close> does the same with the circles
  mapping, leaving points, lines and history as before.
\<close>

theorem construct_fallback_adds_one:
  assumes "rust_binary_path svc = None" and "r < length (heap w)"
    and "p1 |\<in>| fmdom (points (deref w r))" and "p2 |\<in>| fmdom (points (deref w r))"
    and "p1 \<noteq> p2"
  shows "(case construct_line svc r p1 p2 label w of
            (Inr (line_id, r'), w') \<Rightarrow>
              r' = r \<and>
              lines (deref w' r) =
                fmupd line_id
                  \<lparr>l_id = line_id, point1_id = p1, point2_id = p2, l_label = label,
                   l_dependencies = [p1, p2]\<rparr> (lines (deref w r)) \<and>
              points (deref w' r) = points (deref w r) \<and>
              circles (deref w' r) = circles (deref w r) \<and>
              history (deref w' r) = history (deref w r) \<and>
              (line_id |\<notin>| fmdom (lines (deref w r)) \<longrightarrow>
                 fcard (fmdom (lines (deref w' r))) = Suc (fcard (fmdom (lines (deref w r)))))
          | (Inl e, w') \<Rightarrow> False) \<and>
         (case construct_circle svc r p1 p2 label w of
            (Inr (circle_id, r'), w') \<Rightarrow>
              r' = r \<and>
              circles (deref w' r) =
                fmupd circle_id
                  \<lparr>c_id = circle_id, center_id = p1, radius_point_id = p2, c_label = label,
                   c_dependencies = [p1, p2]\<rparr> (circles (deref w r)) \<and>
              points (deref w' r) = points (deref w r) \<and>
              lines (deref w' r) = lines (deref w r) \<and>
              history (deref w' r) = history (deref w r) \<and>
              (circle_id |\<notin>| fmdom (circles (deref w r)) \<longrightarrow>
                 fcard (fmdom (circles (deref w' r))) =
                   Suc (fcard (fmdom (circles (deref w r)))))
          | (Inl e, w') \<Rightarrow> False)"
  using assms
  by (simp add: construct_line_def construct_circle_def uuid4_def Let_def
      deref_update_space_same fcard_finsert_disjoint)

theorem construct_fallback_adds_one_witness:
  "(case construct_line fallback_service 0 ''A'' ''B'' None world_AB of
      (Inr (line_id, r'), w') \<Rightarrow>
         r' = 0 \<and> fcard (fmdom (lines (deref w' 0))) = 1 \<and>
         points (deref w' 0) = points space_AB
    | (Inl e, w') \<Rightarrow> False)"
  using construct_fallback_adds_one [of fallback_service 0 world_AB "''A''" "''B''" None]
  by (simp add: fallback_service_def world_AB_def space_AB_def deref_def fcard_finsert_if
      split: prod.splits sum.splits)

subsection \<open>When a line or a circle is refused\<close>

text \<open>
  Claim C4, as the code has it. \<open>construct_line\<close> and \<open>construct_circle\<close> raise a
  \<open>GeometryEngineError\<close> whenever one of the two identifiers is not a key of the points
  mapping or the two are equal, in either mode; the world is then the one they were called
  in, so nothing was sent to the engine and no object changed. In fallback mode these are
  the only cases in which they raise. Whenever they raise, in either mode, the error is a
  \<open>GeometryEngineError\<close> and the store is unchanged. In delegated mode, with both points
  present and different, they raise exactly when the delegated call fails: a call that
  fails with the message \<open>e\<close> gives the \<open>GeometryEngineError\<close> that carries \<open>e\<close>, in the
  world where the command was sent, and a call that succeeds gives no error.
\<close>

theorem construct_error_cases:
  "(p1 |\<notin>| fmdom (points (deref w r)) \<or> p2 |\<notin>| fmdom (points (deref w r)) \<or> p1 = p2 \<longrightarrow>
      (\<exists>m. construct_line svc r p1 p2 label w = (Inl (GeometryEngineError m), w)) \<and>
      (\<exists>m. construct_circle svc r p1 p2 label w = (Inl (GeometryEngineError m), w))) \<and>
   (rust_binary_path svc = None \<and> p1 |\<in>| fmdom (points (deref w r)) \<and>
    p2 |\<in>| fmdom (points (deref w r)) \<and> p1 \<noteq> p2 \<longrightarrow>
      \<not> isl (fst (construct_line svc r p1 p2 label w)) \<and>
      \<not> isl (fst (construct_circle svc r p1 p2 label w))) \<and>
   (isl (fst (construct_line svc r p1 p2 label w)) \<longrightarrow>
      heap (snd (construct_line svc r p1 p2 label w)) = heap w \<and>
      (\<exists>m. fst (construct_line svc r p1 p2 label w) = Inl (GeometryEngineError m))) \<and>
   (isl (fst (construct_circle svc r p1 p2 label w)) \<longrightarrow>
      heap (snd (construct_circle svc r p1 p2 label w)) = heap w \<and>
      (\<exists>m. fst (construct_circle svc r p1 p2 label w) = Inl (GeometryEngineError m))) \<and>
   (\<forall>engine. rust_binary_path svc = Some engine \<and> p1 |\<in>| fmdom (points (deref w r)) \<and>
      p2 |\<in>| fmdom (points (deref w r)) \<and> p1 \<noteq> p2 \<longrightarrow>
      (\<forall>e. rust_construct_line engine (deref w r) p1 p2 label = Inl e \<longrightarrow>
         construct_line svc r p1 p2 label w =
           (Inl (GeometryEngineError (''Failed to construct line: '' @ e)),
            execute_rust_command ''construct_line'' w)) \<and>
      (\<not> isl (rust_construct_line engine (deref w r) p1 p2 label) \<longrightarrow>
         \<not> isl (fst (construct_line svc r p1 p2 label w))) \<and>
      (\<forall>e. rust_construct_circle engine (deref w r) p1 p2 label = Inl e \<longrightarrow>
         construct_circle svc r p1 p2 label w =
           (Inl (GeometryEngineError (''Failed to construct circle: '' @ e)),
            execute_rust_command ''construct_circle'' w)) \<and>
      (\<not> isl (rust_construct_circle engine (deref w r) p1 p2 label) \<longrightarrow>
         \<not> isl (fst (construct_circle svc r p1 p2 label w))))"
  by (auto simp: construct_line_def construct_circle_def uuid4_def Let_def
      execute_rust_command_def new_space_def
      split: option.splits sum.splits prod.splits if_splits)

theorem construct_error_cases_witness:
  "(\<exists>m. construct_line fallback_service 0 ''A'' ''A'' None world_AB =
          (Inl (GeometryEngineError m), world_AB)) \<and>
   \<not> isl (fst (construct_circle fallback_service 0 ''A'' ''B'' None world_AB)) \<and>
   isl (fst (construct_line delegated_service 0 ''A'' ''B'' None world_AB)) \<and>
   heap (snd (construct_line delegated_service 0 ''A'' ''B'' None world_AB)) = heap world_AB \<and>
   isl (fst (construct_circle delegated_service 0 ''A'' ''B'' None world_AB)) \<and>
   heap (snd (construct_circle delegated_service 0 ''A'' ''B'' None world_AB)) = heap world_AB \<and>
   rust_construct_line demo_engine (deref world_AB 0) ''A'' ''B'' None = Inl ''rejected'' \<and>
   construct_line delegated_service 0 ''A'' ''B'' None world_AB =
     (Inl (GeometryEngineError ''Failed to construct line: rejected''),
      execute_rust_command ''construct_line'' world_AB) \<and>
   rust_construct_circle demo_engine (deref world_AB 0) ''A'' ''B'' None = Inl ''rejected'' \<and>
   construct_circle delegated_service 0 ''A'' ''B'' None world_AB =
     (Inl (GeometryEngineError ''Failed to construct circle: rejected''),
      execute_rust_command ''construct_circle'' world_AB) \<and>
   \<not> isl (rust_construct_line drawing_engine (deref world_AB 0) ''A'' ''B'' None) \<and>
   \<not> isl (fst (construct_line drawing_service 0 ''A'' ''B'' None world_AB)) \<and>
   \<not> isl (rust_construct_circle drawing_engine (deref world_AB 0) ''A'' ''B'' None) \<and>
   \<not> isl (fst (construct_circle drawing_service 0 ''A'' ''B'' None world_AB))"
proof -
  have pts: "''A'' |\<in>| fmdom (points (deref world_AB 0))"
    "''B'' |\<in>| fmdom (points (deref world_AB 0))" "''A'' \<noteq> ''B''"
    by (simp_all add: world_AB_def space_AB_def deref_def)
  have m: "rust_binary_path fallback_service = None"
    "rust_binary_path delegated_service = Some demo_engine"
    "rust_binary_path drawing_service = Some drawing_engine"
    by (simp_all add: fallback_service_def delegated_service_def drawing_service_def)
  have e: "rust_construct_line demo_engine s a b l = Inl ''rejected''"
    "rust_construct_circle demo_engine s a b l = Inl ''rejected''"
    "\<not> isl (rust_construct_line drawing_engine s a b l)"
    "\<not> isl (rust_construct_circle drawing_engine s a b l)" for s a b l
    by (simp_all add: demo_engine_def drawing_engine_def)
  note f1 = construct_error_cases [of "''A''" world_AB 0 "''A''" fallback_service None]
  note f2 = construct_error_cases [of "''A''" world_AB 0 "''B''" fallback_service None]
  note d = construct_error_cases [of "''A''" world_AB 0 "''B''" delegated_service None]
  note g = construct_error_cases [of "''A''" world_AB 0 "''B''" drawing_service None]
  have a1: "\<exists>m. construct_line fallback_service 0 ''A'' ''A'' None world_AB =
          (Inl (GeometryEngineError m), world_AB)"
    using f1 by simp
  have a2: "\<not> isl (fst (construct_circle fallback_service 0 ''A'' ''B'' None world_AB))"
    using f2 pts m by simp
  have d1: "construct_line delegated_service 0 ''A'' ''B'' None world_AB =
     (Inl (GeometryEngineError ''Failed to construct line: rejected''),
      execute_rust_command ''construct_line'' world_AB)"
    and d2: "construct_circle delegated_service 0 ''A'' ''B'' None world_AB =
     (Inl (GeometryEngineError ''Failed to construct circle: rejected''),
      execute_rust_command ''construct_circle'' world_AB)"
    using d pts m e by simp_all
  have d3: "heap (snd (construct_line delegated_service 0 ''A'' ''B'' None world_AB)) =
      heap world_AB"
    "heap (snd (construct_circle delegated_service 0 ''A'' ''B'' None world_AB)) =
      heap world_AB"
    using d d1 d2 by simp_all
  have g1: "\<not> isl (fst (construct_line drawing_service 0 ''A'' ''B'' None world_AB))"
    "\<not> isl (fst (construct_circle drawing_service 0 ''A'' ''B'' None world_AB))"
    using g pts m e by simp_all
  show ?thesis
    using a1 a2 d1 d2 d3 g1 e by simp
qed

text \<open>
  With both points present and distinct, a delegated call that the engine rejects is a
  \<open>GeometryEngineError\<close> too.
\<close>

theorem construct_error_counterexample:
  "''A'' |\<in>| fmdom (points (deref world_AB 0)) \<and>
   ''B'' |\<in>| fmdom (points (deref world_AB 0)) \<and> ''A'' \<noteq> ''B'' \<and>
   fst (construct_line delegated_service 0 ''A'' ''B'' None world_AB) =
     Inl (GeometryEngineError ''Failed to construct line: rejected'')"
  by (simp add: construct_line_def delegated_service_def demo_engine_def world_AB_def
      space_AB_def deref_def Let_def)

subsection \<open>The health check\<close>

text \<open>
  Claim C6, as the code has it. In fallback mode the health check answers \<open>True\<close> and
  calls nothing; in delegated mode it answers \<open>True\<close> exactly when the engine's answer
  has the status \<open>healthy\<close>. So the answer \<open>False\<close> is given in delegated mode only, and
  the answer \<open>True\<close> does not tell fallback mode from a healthy engine.
\<close>

theorem health_check_result:
  "(rust_binary_path svc = None \<longrightarrow> health_check svc w = (True, w)) \<and>
   (\<forall>engine. rust_binary_path svc = Some engine \<longrightarrow>
      fst (health_check svc w) = (rust_health_check engine = Inr (Some ''healthy''))) \<and>
   (\<not> fst (health_check svc w) \<longrightarrow> rust_binary_path svc \<noteq> None)"
  by (auto simp: health_check_def Let_def split: option.splits sum.splits)

theorem health_check_result_witness:
  "health_check fallback_service world_AB = (True, world_AB) \<and>
   fst (health_check delegated_service world_AB) =
     (rust_health_check demo_engine = Inr (Some ''healthy'')) \<and>
   \<not> fst (health_check unhealthy_service world_AB) \<and>
   rust_binary_path unhealthy_service \<noteq> None"
  using health_check_result [of fallback_service world_AB]
    health_check_result [of delegated_service world_AB]
    health_check_result [of unhealthy_service world_AB]
  by (simp add: fallback_service_def delegated_service_def unhealthy_service_def)

text \<open>Fallback mode and a healthy engine give the same answer.\<close>

theorem health_check_same_counterexample:
  "rust_binary_path fallback_service = None \<and>
   rust_binary_path delegated_service = Some demo_engine \<and>
   fst (health_check fallback_service world_AB) = True \<and>
   fst (health_check delegated_service world_AB) = True"
  by (simp add: health_check_def fallback_service_def delegated_service_def demo_engine_def)

section \<open>Properties of validation\<close>

subsection \<open>The validator in fallback mode\<close>

text \<open>
  Claim C3, evaluated. The space in cell 0 has the points A and B; the service is in
  fallback mode. A circle step and a line step whose two dependencies are the same point A
  are both valid for the validator, and the validate-step answer carries no suggestion,
  while executing the same circle step is refused with the very reason the suggestions
  have for it.
\<close>

theorem identical_dependencies_accepted:
  "fst (validate_construction fallback_service 0
          (step_data_of (mk_step 1 ''construct_circle'' [''A'', ''A''])) world_AB) = Inr True \<and>
   fst (validate_construction_step (mk_step 1 ''construct_line'' [''A'', ''A'']) 0
          fallback_service world_AB) =
     Inr \<lparr>vr_is_valid = True, vr_step = mk_step 1 ''construct_line'' [''A'', ''A''],
          vr_validation_message = ''Step is valid'', vr_suggestions = []\<rparr> \<and>
   get_validation_suggestions (mk_step 1 ''construct_circle'' [''A'', ''A'']) space_AB =
     [''Center and radius point cannot be the same''] \<and>
   fst (execute_construction_step (mk_step 1 ''construct_circle'' [''A'', ''A'']) 0
          fallback_service world_AB) =
     Inl (GeometryEngineError ''Center and radius point cannot be the same'')"
  by (simp add: validate_construction_step_def validate_construction_def fallback_service_def
      step_data_of_def mk_step_def world_AB_def space_AB_def deref_def
      get_validation_suggestions_def execute_construction_step_def construct_circle_def)

text \<open>
  Claim C5, evaluated. In the same world a line step with one dependency and an
  intersection step with none are valid for the validator, with no suggestion, while
  executing the line step is refused for its number of dependencies.
\<close>

theorem wrong_arity_accepted:
  "fst (validate_construction_step (mk_step 1 ''construct_line'' [''A'']) 0
          fallback_service world_AB) =
     Inr \<lparr>vr_is_valid = True, vr_step = mk_step 1 ''construct_line'' [''A''],
          vr_validation_message = ''Step is valid'', vr_suggestions = []\<rparr> \<and>
   fst (validate_construction_step (mk_step 1 ''find_intersections'' []) 0
          fallback_service world_AB) =
     Inr \<lparr>vr_is_valid = True, vr_step = mk_step 1 ''find_intersections'' [],
          vr_validation_message = ''Step is valid'', vr_suggestions = []\<rparr> \<and>
   get_validation_suggestions (mk_step 1 ''construct_line'' [''A'']) space_AB =
     [''Line construction requires exactly 2 point dependencies''] \<and>
   fst (execute_construction_step (mk_step 1 ''construct_line'' [''A'']) 0
          fallback_service world_AB) =
     Inl (ConstructionValidationError ''Line requires exactly 2 points'')"
  by (simp add: validate_construction_step_def validate_construction_def fallback_service_def
      step_data_of_def mk_step_def world_AB_def space_AB_def deref_def
      get_validation_suggestions_def execute_construction_step_def)

subsection \<open>Pattern heuristics\<close>

text \<open>
  Claim C9, as the code has it. The analysis lists the pattern \<open>equilateral_triangle\<close>
  exactly when the space has exactly three lines, at least two circles and at least three
  points. The unlock test of the element \<open>equilateral_triangle\<close> holds for every space
  with at least three lines and at least two circles. Both depend on the space through
  its counts only: two spaces with the same numbers of points, lines, circles and history
  entries get the same analysis and the same unlock verdict.
\<close>

theorem triangle_pattern:
  "(''equilateral_triangle'' \<in> set (identified_patterns (analyze_construction s)) \<longleftrightarrow>
      fcard (fmdom (lines s)) = 3 \<and> fcard (fmdom (circles s)) \<ge> 2 \<and>
      fcard (fmdom (points s)) \<ge> 3) \<and>
   (el_id e = ''equilateral_triangle'' \<and> fcard (fmdom (lines s)) \<ge> 3 \<and>
      fcard (fmdom (circles s)) \<ge> 2 \<longrightarrow> can_unlock_element e s) \<and>
   (fcard (fmdom (points s)) = fcard (fmdom (points s')) \<and>
    fcard (fmdom (lines s)) = fcard (fmdom (lines s')) \<and>
    fcard (fmdom (circles s)) = fcard (fmdom (circles s')) \<and>
    length (history s) = length (history s') \<longrightarrow>
      analyze_construction s = analyze_construction s' \<and>
      can_unlock_element e s = can_unlock_element e s')"
  by (auto simp: analyze_construction_def can_unlock_element_def Let_def)

theorem triangle_pattern_witness:
  "''equilateral_triangle'' \<in> set (identified_patterns (analyze_construction (triangle_space ''l3''))) \<and>
   can_unlock_element triangle_element (triangle_space ''l3'') \<and>
   triangle_space ''l3'' \<noteq> triangle_space ''m3'' \<and>
   analyze_construction (triangle_space ''l3'') = analyze_construction (triangle_space ''m3'') \<and>
   can_unlock_element triangle_element (triangle_space ''l3'') =
     can_unlock_element triangle_element (triangle_space ''m3'')"
proof -
  have c: "fcard (fmdom (lines (triangle_space ''l3''))) = 3"
    "fcard (fmdom (lines (triangle_space ''m3''))) = 3"
    "fcard (fmdom (circles (triangle_space l))) = 2"
    "fcard (fmdom (points (triangle_space l))) = 3"
    "length (history (triangle_space l)) = 0" for l
    by (simp_all add: triangle_space_def space_AB_def fcard_finsert_if)
  have d1: "''l3'' |\<in>| fmdom (lines (triangle_space ''l3''))"
    by (simp add: triangle_space_def)
  have d2: "''l3'' |\<notin>| fmdom (lines (triangle_space ''m3''))"
    by (simp add: triangle_space_def)
  have d: "triangle_space ''l3'' \<noteq> triangle_space ''m3''"
    using d1 d2 by metis
  note t = triangle_pattern [of "triangle_space ''l3''" triangle_element "triangle_space ''m3''"]
  have e: "el_id triangle_element = ''equilateral_triangle''"
    by (simp add: triangle_element_def)
  have a1: "''equilateral_triangle'' \<in>
      set (identified_patterns (analyze_construction (triangle_space ''l3'')))"
    using conjunct1 [OF t] c by simp
  have a2: "can_unlock_element triangle_element (triangle_space ''l3'')"
    using conjunct1 [OF conjunct2 [OF t]] c e by simp
  have a3: "analyze_construction (triangle_space ''l3'') =
      analyze_construction (triangle_space ''m3'')"
    and a4: "can_unlock_element triangle_element (triangle_space ''l3'') =
      can_unlock_element triangle_element (triangle_space ''m3'')"
    using conjunct2 [OF conjunct2 [OF t]] c by simp_all
  show ?thesis
    using a1 a2 d a3 a4 by blast
qed

text \<open>
  A space with four lines, two circles and three points is not listed as a triangle by
  the analysis.
\<close>

theorem triangle_pattern_counterexample:
  "fcard (fmdom (lines space_four_lines)) \<ge> 3 \<and>
   fcard (fmdom (circles space_four_lines)) \<ge> 2 \<and>
   fcard (fmdom (points space_four_lines)) \<ge> 3 \<and>
   ''equilateral_triangle'' \<notin> set (identified_patterns (analyze_construction space_four_lines))"
  by (simp add: analyze_construction_def space_four_lines_def space_AB_def fcard_finsert_if
      Let_def)

subsection \<open>The sequence validator\<close>








section \<open>Properties of execution\<close>

subsection \<open>Which objects an operation writes\<close>

text \<open>
  The cells below \<open>n\<close> are out of reach of an operation that works on a cell \<open>c\<close> at or
  above \<open>n\<close>: it writes cell \<open>c\<close> or a new cell.
\<close>

lemma add_point_frame:
  assumes "n \<le> c" and "c < length (heap w)" and "add_point svc c a b l w = (res, w')"
  shows "take n (heap w') = take n (heap w) \<and> length (heap w) \<le> length (heap w') \<and>
         (\<forall>i c'. res = Inr (i, c') \<longrightarrow> n \<le> c' \<and> c' < length (heap w'))"
  using assms
  by (auto simp: add_point_def uuid4_def update_space_def new_space_def
      execute_rust_command_def Let_def split: option.splits sum.splits prod.splits)

lemma construct_line_frame:
  assumes "n \<le> c" and "c < length (heap w)" and "construct_line svc c a b l w = (res, w')"
  shows "take n (heap w') = take n (heap w) \<and> length (heap w) \<le> length (heap w') \<and>
         (\<forall>i c'. res = Inr (i, c') \<longrightarrow> n \<le> c' \<and> c' < length (heap w'))"
  using assms
  by (auto simp: construct_line_def uuid4_def update_space_def new_space_def
      execute_rust_command_def Let_def split: option.splits sum.splits prod.splits if_splits)

lemma construct_circle_frame:
  assumes "n \<le> c" and "c < length (heap w)" and "construct_circle svc c a b l w = (res, w')"
  shows "take n (heap w') = take n (heap w) \<and> length (heap w) \<le> length (heap w') \<and>
         (\<forall>i c'. res = Inr (i, c') \<longrightarrow> n \<le> c' \<and> c' < length (heap w'))"
  using assms
  by (auto simp: construct_circle_def uuid4_def update_space_def new_space_def
      execute_rust_command_def Let_def split: option.splits sum.splits prod.splits if_splits)

lemma find_intersections_frame:
  assumes "n \<le> c" and "c < length (heap w)" and "find_intersections svc c a b w = (res, w')"
  shows "take n (heap w') = take n (heap w) \<and> length (heap w) \<le> length (heap w') \<and>
         (\<forall>i c'. res = Inr (i, c') \<longrightarrow> n \<le> c' \<and> c' < length (heap w'))"
  using assms
  by (auto simp: find_intersections_def new_space_def
      execute_rust_command_def Let_def split: option.splits sum.splits prod.splits)

lemma execute_construction_step_frame:
  assumes "n \<le> c" and "c < length (heap w)"
    and "execute_construction_step step c svc w = (res, w')"
  shows "take n (heap w') = take n (heap w) \<and> length (heap w) \<le> length (heap w') \<and>
         (\<forall>s. res = Inr s \<longrightarrow> n \<le> updated_space s \<and> updated_space s < length (heap w'))"
proof -
  consider (p) "step_type step = ''add_point''"
    | (l) "step_type step = ''construct_line''"
    | (c) "step_type step = ''construct_circle''"
    | (i) "step_type step = ''find_intersections''"
    | (u) "step_type step \<noteq> ''add_point''" "step_type step \<noteq> ''construct_line''"
          "step_type step \<noteq> ''construct_circle''" "step_type step \<noteq> ''find_intersections''"
    by blast
  then show ?thesis
  proof cases
    case p
    obtain r1 w1 where o: "add_point svc c
        (case meta_x (metadata step) of None \<Rightarrow> 0 | Some v \<Rightarrow> v)
        (case meta_y (metadata step) of None \<Rightarrow> 0 | Some v \<Rightarrow> v)
        (meta_label (metadata step)) w = (r1, w1)"
      by (cases "add_point svc c
        (case meta_x (metadata step) of None \<Rightarrow> 0 | Some v \<Rightarrow> v)
        (case meta_y (metadata step) of None \<Rightarrow> 0 | Some v \<Rightarrow> v)
        (meta_label (metadata step)) w")
    from add_point_frame [OF assms(1,2) o] assms(3) p o show ?thesis
      by (auto simp: execute_construction_step_def Let_def split: sum.splits prod.splits)
  next
    case l
    obtain r1 w1 where o: "construct_line svc c (dependencies step ! 0) (dependencies step ! 1)
        (meta_label (metadata step)) w = (r1, w1)"
      by (cases "construct_line svc c (dependencies step ! 0) (dependencies step ! 1)
        (meta_label (metadata step)) w")
    from construct_line_frame [OF assms(1,2) o] assms(3) l o show ?thesis
      by (auto simp: execute_construction_step_def Let_def
          split: sum.splits prod.splits if_splits)
  next
    case c
    obtain r1 w1 where o: "construct_circle svc c (dependencies step ! 0) (dependencies step ! 1)
        (meta_label (metadata step)) w = (r1, w1)"
      by (cases "construct_circle svc c (dependencies step ! 0) (dependencies step ! 1)
        (meta_label (metadata step)) w")
    from construct_circle_frame [OF assms(1,2) o] assms(3) c o show ?thesis
      by (auto simp: execute_construction_step_def Let_def
          split: sum.splits prod.splits if_splits)
  next
    case i
    obtain r1 w1 where o: "find_intersections svc c (dependencies step ! 0)
        (dependencies step ! 1) w = (r1, w1)"
      by (cases "find_intersections svc c (dependencies step ! 0) (dependencies step ! 1) w")
    from find_intersections_frame [OF assms(1,2) o] assms(3) i o show ?thesis
      by (auto simp: execute_construction_step_def Let_def
          split: sum.splits prod.splits if_splits)
  next
    case u
    with assms(3) show ?thesis by (auto simp: execute_construction_step_def)
  qed
qed

lemma execute_loop_frame:
  assumes "n \<le> c" and "c < length (heap w)"
    and "execute_loop svc i sts c acc w = ((c', results), w')"
  shows "take n (heap w') = take n (heap w) \<and> n \<le> c' \<and> c' < length (heap w')"
  using assms
proof (induction sts arbitrary: i c acc w)
  case Nil
  then show ?case by simp
next
  case (Cons st sts)
  obtain res w1 where s: "execute_construction_step st c svc w = (res, w1)"
    by (cases "execute_construction_step st c svc w")
  note f = execute_construction_step_frame [OF Cons.prems(1,2) s]
  show ?case
  proof (cases res)
    case (Inl e)
    with Cons.prems(3) s have "c' = c" "w' = w1" by simp_all
    with f Cons.prems(1,2) show ?thesis by simp
  next
    case (Inr sr)
    with Cons.prems(3) s obtain acc1 where
      rec: "execute_loop svc (i + 1) sts (updated_space sr) acc1 w1 = ((c', results), w')"
      by simp
    from f Inr have b: "n \<le> updated_space sr" "updated_space sr < length (heap w1)" by simp_all
    from Cons.IH [OF b rec] f show ?thesis by simp
  qed
qed


text \<open>
  Claim C2, as the code has it. Execute-sequence works on a copy: in either mode every
  object that exists when it is called, the caller's space among them, is unchanged when
  it returns, and the final space is another object. In delegated mode add point,
  construct line, construct circle and find intersections leave every existing object
  unchanged, and what they return on success is a new object, in a cell that did not exist
  before, holding the space the engine answered. In fallback mode find intersections
  changes nothing and returns the caller's object itself, while add point writes the new
  point into the caller's object itself and returns that object, and construct line and
  construct circle, when they succeed, return the caller's object as well, with the new
  line or circle written into it.
\<close>

theorem space_mutation_by_mode:
  "(r < length (heap w) \<longrightarrow>
      take (length (heap w)) (heap (snd (execute_construction_sequence sq r svc w))) = heap w \<and>
      length (heap w) \<le> final_construction_space (fst (execute_construction_sequence sq r svc w))) \<and>
   (rust_binary_path svc \<noteq> None \<and> r < length (heap w) \<longrightarrow>
      take (length (heap w)) (heap (snd (add_point svc r a b l w))) = heap w \<and>
      take (length (heap w)) (heap (snd (construct_line svc r p1 p2 l w))) = heap w \<and>
      take (length (heap w)) (heap (snd (construct_circle svc r p1 p2 l w))) = heap w \<and>
      take (length (heap w)) (heap (snd (find_intersections svc r p1 p2 w))) = heap w) \<and>
   (\<forall>engine. rust_binary_path svc = Some engine \<longrightarrow>
      (\<forall>i s. rust_add_point engine (deref w r) a b l = Inr (i, s) \<longrightarrow>
         fst (add_point svc r a b l w) = Inr (i, length (heap w)) \<and>
         heap (snd (add_point svc r a b l w)) = heap w @ [s]) \<and>
      (\<forall>found s. rust_find_intersections engine (deref w r) p1 p2 = Inr (found, s) \<longrightarrow>
         fst (find_intersections svc r p1 p2 w) = Inr (found, length (heap w)) \<and>
         heap (snd (find_intersections svc r p1 p2 w)) = heap w @ [s]) \<and>
      (p1 |\<in>| fmdom (points (deref w r)) \<and> p2 |\<in>| fmdom (points (deref w r)) \<and> p1 \<noteq> p2 \<longrightarrow>
         (\<forall>i s. rust_construct_line engine (deref w r) p1 p2 l = Inr (i, s) \<longrightarrow>
            fst (construct_line svc r p1 p2 l w) = Inr (i, length (heap w)) \<and>
            heap (snd (construct_line svc r p1 p2 l w)) = heap w @ [s]) \<and>
         (\<forall>i s. rust_construct_circle engine (deref w r) p1 p2 l = Inr (i, s) \<longrightarrow>
            fst (construct_circle svc r p1 p2 l w) = Inr (i, length (heap w)) \<and>
            heap (snd (construct_circle svc r p1 p2 l w)) = heap w @ [s]))) \<and>
   (rust_binary_path svc \<noteq> None \<longrightarrow>
      (\<forall>i r'. fst (add_point svc r a b l w) = Inr (i, r') \<longrightarrow> r' = length (heap w)) \<and>
      (\<forall>i r'. fst (construct_line svc r p1 p2 l w) = Inr (i, r') \<longrightarrow> r' = length (heap w)) \<and>
      (\<forall>i r'. fst (construct_circle svc r p1 p2 l w) = Inr (i, r') \<longrightarrow> r' = length (heap w)) \<and>
      (\<forall>found r'. fst (find_intersections svc r p1 p2 w) = Inr (found, r') \<longrightarrow>
         r' = length (heap w))) \<and>
   (rust_binary_path svc = None \<longrightarrow> find_intersections svc r p1 p2 w = (Inr ([], r), w)) \<and>
   (rust_binary_path svc = None \<and> r < length (heap w) \<longrightarrow>
      fst (add_point svc r a b l w) = Inr (uuid_pool w (uuid_count w), r) \<and>
      points (deref (snd (add_point svc r a b l w)) r) =
        fmupd (uuid_pool w (uuid_count w))
          \<lparr>p_id = uuid_pool w (uuid_count w), p_x = a, p_y = b, p_label = l,
           is_constructed = False, p_dependencies = []\<rparr> (points (deref w r))) \<and>
   (rust_binary_path svc = None \<and> r < length (heap w) \<and>
    \<not> isl (fst (construct_line svc r p1 p2 l w)) \<longrightarrow>
      fst (construct_line svc r p1 p2 l w) = Inr (uuid_pool w (uuid_count w), r) \<and>
      uuid_pool w (uuid_count w) |\<in>|
        fmdom (lines (deref (snd (construct_line svc r p1 p2 l w)) r))) \<and>
   (rust_binary_path svc = None \<and> r < length (heap w) \<and>
    \<not> isl (fst (construct_circle svc r p1 p2 l w)) \<longrightarrow>
      fst (construct_circle svc r p1 p2 l w) = Inr (uuid_pool w (uuid_count w), r) \<and>
      uuid_pool w (uuid_count w) |\<in>|
        fmdom (circles (deref (snd (construct_circle svc r p1 p2 l w)) r)))"
proof (intro conjI impI)
  obtain c' results w' where
    l: "execute_loop svc 0 (steps sq) (length (heap w)) []
          (snd (new_space (deref w r) w)) = ((c', results), w')"
    by (cases "execute_loop svc 0 (steps sq) (length (heap w)) []
          (snd (new_space (deref w r) w))") auto
  have "length (heap w) < length (heap (snd (new_space (deref w r) w)))"
    by (simp add: new_space_def)
  from execute_loop_frame [OF le_refl this l]
  have f: "take (length (heap w)) (heap w') = heap w" "length (heap w) \<le> c'"
    by (simp_all add: new_space_def)
  from l have e: "snd (execute_construction_sequence sq r svc w) = w'"
    "final_construction_space (fst (execute_construction_sequence sq r svc w)) = c'"
    by (simp_all add: execute_construction_sequence_def new_space_def Let_def)
  show "take (length (heap w)) (heap (snd (execute_construction_sequence sq r svc w))) = heap w"
    using f e by simp
  show "length (heap w) \<le>
      final_construction_space (fst (execute_construction_sequence sq r svc w))"
    using f e by simp
next
  assume "rust_binary_path svc \<noteq> None \<and> r < length (heap w)"
  then show "take (length (heap w)) (heap (snd (add_point svc r a b l w))) = heap w"
    by (auto simp: add_point_def new_space_def execute_rust_command_def Let_def
        split: option.splits sum.splits prod.splits)
next
  assume "rust_binary_path svc \<noteq> None \<and> r < length (heap w)"
  then show "take (length (heap w)) (heap (snd (construct_line svc r p1 p2 l w))) = heap w"
    by (auto simp: construct_line_def new_space_def execute_rust_command_def Let_def
        split: option.splits sum.splits prod.splits)
next
  assume "rust_binary_path svc \<noteq> None \<and> r < length (heap w)"
  then show "take (length (heap w)) (heap (snd (construct_circle svc r p1 p2 l w))) = heap w"
    by (auto simp: construct_circle_def new_space_def execute_rust_command_def Let_def
        split: option.splits sum.splits prod.splits)
next
  assume "rust_binary_path svc \<noteq> None \<and> r < length (heap w)"
  then show "take (length (heap w)) (heap (snd (find_intersections svc r p1 p2 w))) = heap w"
    by (auto simp: find_intersections_def new_space_def execute_rust_command_def Let_def
        split: option.splits sum.splits prod.splits)
next
  show "\<forall>engine. rust_binary_path svc = Some engine \<longrightarrow>
      (\<forall>i s. rust_add_point engine (deref w r) a b l = Inr (i, s) \<longrightarrow>
         fst (add_point svc r a b l w) = Inr (i, length (heap w)) \<and>
         heap (snd (add_point svc r a b l w)) = heap w @ [s]) \<and>
      (\<forall>found s. rust_find_intersections engine (deref w r) p1 p2 = Inr (found, s) \<longrightarrow>
         fst (find_intersections svc r p1 p2 w) = Inr (found, length (heap w)) \<and>
         heap (snd (find_intersections svc r p1 p2 w)) = heap w @ [s]) \<and>
      (p1 |\<in>| fmdom (points (deref w r)) \<and> p2 |\<in>| fmdom (points (deref w r)) \<and> p1 \<noteq> p2 \<longrightarrow>
         (\<forall>i s. rust_construct_line engine (deref w r) p1 p2 l = Inr (i, s) \<longrightarrow>
            fst (construct_line svc r p1 p2 l w) = Inr (i, length (heap w)) \<and>
            heap (snd (construct_line svc r p1 p2 l w)) = heap w @ [s]) \<and>
         (\<forall>i s. rust_construct_circle engine (deref w r) p1 p2 l = Inr (i, s) \<longrightarrow>
            fst (construct_circle svc r p1 p2 l w) = Inr (i, length (heap w)) \<and>
            heap (snd (construct_circle svc r p1 p2 l w)) = heap w @ [s]))"
    by (simp add: add_point_def find_intersections_def construct_line_def construct_circle_def
        new_space_def execute_rust_command_def Let_def)
next
  assume "rust_binary_path svc \<noteq> None"
  then show "\<forall>i r'. fst (add_point svc r a b l w) = Inr (i, r') \<longrightarrow> r' = length (heap w)"
    by (auto simp: add_point_def new_space_def execute_rust_command_def Let_def
        split: option.splits sum.splits prod.splits)
next
  assume "rust_binary_path svc \<noteq> None"
  then show "\<forall>i r'. fst (construct_line svc r p1 p2 l w) = Inr (i, r') \<longrightarrow>
      r' = length (heap w)"
    by (auto simp: construct_line_def new_space_def execute_rust_command_def Let_def
        split: option.splits sum.splits prod.splits if_splits)
next
  assume "rust_binary_path svc \<noteq> None"
  then show "\<forall>i r'. fst (construct_circle svc r p1 p2 l w) = Inr (i, r') \<longrightarrow>
      r' = length (heap w)"
    by (auto simp: construct_circle_def new_space_def execute_rust_command_def Let_def
        split: option.splits sum.splits prod.splits if_splits)
next
  assume "rust_binary_path svc \<noteq> None"
  then show "\<forall>found r'. fst (find_intersections svc r p1 p2 w) = Inr (found, r') \<longrightarrow>
         r' = length (heap w)"
    by (auto simp: find_intersections_def new_space_def execute_rust_command_def Let_def
        split: option.splits sum.splits prod.splits)
next
  assume "rust_binary_path svc = None"
  then show "find_intersections svc r p1 p2 w = (Inr ([], r), w)"
    by (simp add: find_intersections_def)
next
  assume a: "rust_binary_path svc = None \<and> r < length (heap w)"
  then show "fst (add_point svc r a b l w) = Inr (uuid_pool w (uuid_count w), r)"
    by (simp add: add_point_def uuid4_def Let_def)
  from a show "points (deref (snd (add_point svc r a b l w)) r) =
        fmupd (uuid_pool w (uuid_count w))
          \<lparr>p_id = uuid_pool w (uuid_count w), p_x = a, p_y = b, p_label = l,
           is_constructed = False, p_dependencies = []\<rparr> (points (deref w r))"
    by (simp add: add_point_def uuid4_def Let_def deref_update_space_same)
next
  assume a: "rust_binary_path svc = None \<and> r < length (heap w) \<and>
    \<not> isl (fst (construct_line svc r p1 p2 l w))"
  then show "fst (construct_line svc r p1 p2 l w) = Inr (uuid_pool w (uuid_count w), r)"
    by (auto simp: construct_line_def uuid4_def Let_def split: if_splits)
  from a show "uuid_pool w (uuid_count w) |\<in>|
        fmdom (lines (deref (snd (construct_line svc r p1 p2 l w)) r))"
    by (auto simp: construct_line_def uuid4_def Let_def deref_update_space_same
        split: if_splits)
next
  assume a: "rust_binary_path svc = None \<and> r < length (heap w) \<and>
    \<not> isl (fst (construct_circle svc r p1 p2 l w))"
  then show "fst (construct_circle svc r p1 p2 l w) = Inr (uuid_pool w (uuid_count w), r)"
    by (auto simp: construct_circle_def uuid4_def Let_def split: if_splits)
  from a show "uuid_pool w (uuid_count w) |\<in>|
        fmdom (circles (deref (snd (construct_circle svc r p1 p2 l w)) r))"
    by (auto simp: construct_circle_def uuid4_def Let_def deref_update_space_same
        split: if_splits)
qed


theorem space_mutation_by_mode_witness:
  "take 1 (heap (snd (execute_construction_sequence demo_sequence 0 fallback_service world_AB)))
     = [space_AB] \<and>
   take 1 (heap (snd (execute_construction_sequence demo_sequence 0 delegated_service world_AB)))
     = [space_AB] \<and>
   take 1 (heap (snd (add_point delegated_service 0 1 2 None world_AB))) = [space_AB] \<and>
   take 1 (heap (snd (find_intersections delegated_service 0 ''A'' ''B'' world_AB)))
     = [space_AB] \<and>
   snd (find_intersections fallback_service 0 ''A'' ''B'' world_AB) = world_AB \<and>
   fst (add_point fallback_service 0 1 2 None world_AB) = Inr (''u'', 0) \<and>
   fst (construct_line fallback_service 0 ''A'' ''B'' None world_AB) = Inr (''u'', 0) \<and>
   fst (construct_circle fallback_service 0 ''A'' ''B'' None world_AB) = Inr (''u'', 0) \<and>
   fst (add_point delegated_service 0 1 2 None world_AB) = Inr (''P'', 1) \<and>
   heap (snd (add_point delegated_service 0 1 2 None world_AB)) =
     [space_AB, space_AB\<lparr>points := fmupd ''P'' (mk_point ''P'' 1 2) (points space_AB)\<rparr>] \<and>
   fst (find_intersections delegated_service 0 ''A'' ''B'' world_AB) = Inr ([], 1) \<and>
   heap (snd (find_intersections delegated_service 0 ''A'' ''B'' world_AB)) =
     [space_AB, space_AB] \<and>
   fst (construct_line drawing_service 0 ''A'' ''B'' None world_AB) = Inr (''L'', 1) \<and>
   heap (snd (construct_line drawing_service 0 ''A'' ''B'' None world_AB)) =
     [space_AB, space_AB\<lparr>lines := fmupd ''L'' (mk_line ''L'' ''A'' ''B'') (lines space_AB)\<rparr>] \<and>
   fst (construct_circle drawing_service 0 ''A'' ''B'' None world_AB) = Inr (''K'', 1) \<and>
   heap (snd (construct_circle drawing_service 0 ''A'' ''B'' None world_AB)) =
     [space_AB,
      space_AB\<lparr>circles := fmupd ''K'' (mk_circle ''K'' ''A'' ''B'') (circles space_AB)\<rparr>]"
proof -
  have l: "length (heap world_AB) = 1" "heap world_AB = [space_AB]"
    "uuid_pool world_AB (uuid_count world_AB) = ''u''" "deref world_AB 0 = space_AB"
    by (simp_all add: world_AB_def deref_def)
  have pts: "''A'' |\<in>| fmdom (points space_AB)" "''B'' |\<in>| fmdom (points space_AB)"
    "''A'' \<noteq> ''B''"
    by (simp_all add: space_AB_def)
  have m: "rust_binary_path fallback_service = None"
    "rust_binary_path delegated_service = Some demo_engine"
    "rust_binary_path drawing_service = Some drawing_engine"
    by (simp_all add: fallback_service_def delegated_service_def drawing_service_def)
  have e: "rust_add_point demo_engine s x y lb =
      Inr (''P'', s\<lparr>points := fmupd ''P'' (mk_point ''P'' x y) (points s)\<rparr>)"
    "rust_find_intersections demo_engine s p q = Inr ([], s)"
    "rust_construct_line drawing_engine s p q lb =
      Inr (''L'', s\<lparr>lines := fmupd ''L'' (mk_line ''L'' p q) (lines s)\<rparr>)"
    "rust_construct_circle drawing_engine s p q lb =
      Inr (''K'', s\<lparr>circles := fmupd ''K'' (mk_circle ''K'' p q) (circles s)\<rparr>)"
    for s x y lb p q
    by (simp_all add: demo_engine_def drawing_engine_def)
  have ok: "\<not> isl (fst (construct_line fallback_service 0 ''A'' ''B'' None world_AB))"
    "\<not> isl (fst (construct_circle fallback_service 0 ''A'' ''B'' None world_AB))"
    by (simp_all add: construct_line_def construct_circle_def fallback_service_def
        world_AB_def space_AB_def deref_def uuid4_def Let_def)
  note f = space_mutation_by_mode [where r = 0 and w = world_AB and sq = demo_sequence
      and svc = fallback_service and ?p1.0 = "''A''" and ?p2.0 = "''B''" and a = 1 and b = 2
      and l = None]
  note d = space_mutation_by_mode [where r = 0 and w = world_AB and sq = demo_sequence
      and svc = delegated_service and ?p1.0 = "''A''" and ?p2.0 = "''B''" and a = 1 and b = 2
      and l = None]
  note g = space_mutation_by_mode [where r = 0 and w = world_AB and sq = demo_sequence
      and svc = drawing_service and ?p1.0 = "''A''" and ?p2.0 = "''B''" and a = 1 and b = 2
      and l = None]
  note f1 = conjunct1 [OF f]
  note f5 = conjunct1 [OF conjunct2 [OF conjunct2 [OF conjunct2 [OF conjunct2 [OF f]]]]]
  note f6 = conjunct1 [OF conjunct2 [OF conjunct2 [OF conjunct2 [OF conjunct2
      [OF conjunct2 [OF f]]]]]]
  note f7 = conjunct1 [OF conjunct2 [OF conjunct2 [OF conjunct2 [OF conjunct2
      [OF conjunct2 [OF conjunct2 [OF f]]]]]]]
  note f8 = conjunct2 [OF conjunct2 [OF conjunct2 [OF conjunct2 [OF conjunct2
      [OF conjunct2 [OF conjunct2 [OF f]]]]]]]
  note d1 = conjunct1 [OF d]
  note d2 = conjunct1 [OF conjunct2 [OF d]]
  note d3 = conjunct1 [OF conjunct2 [OF conjunct2 [OF d]]]
  note g3 = conjunct1 [OF conjunct2 [OF conjunct2 [OF g]]]
  have f': "take 1 (heap (snd (execute_construction_sequence demo_sequence 0 fallback_service
                world_AB))) = [space_AB]"
    "snd (find_intersections fallback_service 0 ''A'' ''B'' world_AB) = world_AB"
    "fst (add_point fallback_service 0 1 2 None world_AB) = Inr (''u'', 0)"
    "fst (construct_line fallback_service 0 ''A'' ''B'' None world_AB) = Inr (''u'', 0)"
    "fst (construct_circle fallback_service 0 ''A'' ''B'' None world_AB) = Inr (''u'', 0)"
    using f1 l(1,2) apply simp
    using f5 m(1) apply simp
    using f6 l(1,3) m(1) apply simp
    using f7 l(1,3) m(1) ok(1) apply simp
    using f8 l(1,3) m(1) ok(2) apply simp
    done
  have d': "take 1 (heap (snd (execute_construction_sequence demo_sequence 0 delegated_service
                world_AB))) = [space_AB]"
    "take 1 (heap (snd (add_point delegated_service 0 1 2 None world_AB))) = [space_AB]"
    "take 1 (heap (snd (find_intersections delegated_service 0 ''A'' ''B'' world_AB)))
       = [space_AB]"
    using d1 l(1,2) apply simp
    using d2 l(1,2) m(2) apply simp
    using d2 l(1,2) m(2) apply simp
    done
  have d'': "fst (add_point delegated_service 0 1 2 None world_AB) = Inr (''P'', 1)"
    "heap (snd (add_point delegated_service 0 1 2 None world_AB)) =
       [space_AB, space_AB\<lparr>points := fmupd ''P'' (mk_point ''P'' 1 2) (points space_AB)\<rparr>]"
    "fst (find_intersections delegated_service 0 ''A'' ''B'' world_AB) = Inr ([], 1)"
    "heap (snd (find_intersections delegated_service 0 ''A'' ''B'' world_AB)) =
       [space_AB, space_AB]"
    using d3 m(2) e(1,2) l(1,2,4) by simp_all
  have g': "fst (construct_line drawing_service 0 ''A'' ''B'' None world_AB) = Inr (''L'', 1)"
    "heap (snd (construct_line drawing_service 0 ''A'' ''B'' None world_AB)) =
       [space_AB, space_AB\<lparr>lines := fmupd ''L'' (mk_line ''L'' ''A'' ''B'') (lines space_AB)\<rparr>]"
    "fst (construct_circle drawing_service 0 ''A'' ''B'' None world_AB) = Inr (''K'', 1)"
    "heap (snd (construct_circle drawing_service 0 ''A'' ''B'' None world_AB)) =
       [space_AB,
        space_AB\<lparr>circles := fmupd ''K'' (mk_circle ''K'' ''A'' ''B'') (circles space_AB)\<rparr>]"
    using g3 m(3) e(3,4) l(1,2,4) pts by simp_all
  show ?thesis using f' d' d'' g' by simp
qed

text \<open>In fallback mode the caller's space has one point more after add point.\<close>

theorem add_point_mutates_counterexample:
  "rust_binary_path fallback_service = None \<and>
   deref (snd (add_point fallback_service 0 1 2 None world_AB)) 0 \<noteq> deref world_AB 0"
proof -
  have "''u'' |\<in>| fmdom (points (deref (snd (add_point fallback_service 0 1 2 None world_AB)) 0))"
    by (simp add: add_point_def fallback_service_def world_AB_def uuid4_def update_space_def
        deref_def Let_def)
  moreover have "''u'' |\<notin>| fmdom (points (deref world_AB 0))"
    by (simp add: world_AB_def space_AB_def deref_def)
  ultimately have "deref (snd (add_point fallback_service 0 1 2 None world_AB)) 0
      \<noteq> deref world_AB 0"
    by metis
  then show ?thesis by (simp add: fallback_service_def)
qed

subsection \<open>A sequence that succeeds, in fallback mode\<close>

lemma execute_step_fallback:
  assumes "rust_binary_path svc = None" and "c < length (heap w)"
    and "execute_construction_step step c svc w = (Inr res, w')"
  shows "updated_space res = c \<and> length (heap w') = length (heap w) \<and>
         uuid_pool w' = uuid_pool w \<and>
         history (deref w' c) = history (deref w c) \<and>
         fmdom (points (deref w' c)) =
           (if step_type step = ''add_point''
            then finsert (uuid_pool w (uuid_count w)) (fmdom (points (deref w c)))
            else fmdom (points (deref w c))) \<and>
         fmdom (lines (deref w' c)) =
           (if step_type step = ''construct_line''
            then finsert (uuid_pool w (uuid_count w)) (fmdom (lines (deref w c)))
            else fmdom (lines (deref w c))) \<and>
         fmdom (circles (deref w' c)) =
           (if step_type step = ''construct_circle''
            then finsert (uuid_pool w (uuid_count w)) (fmdom (circles (deref w c)))
            else fmdom (circles (deref w c))) \<and>
         uuid_count w' =
           (if step_type step = ''find_intersections'' then uuid_count w
            else Suc (uuid_count w)) \<and>
         created_id res =
           (if step_type step = ''find_intersections'' then None
            else Some (uuid_pool w (uuid_count w)))"
proof -
  consider (p) "step_type step = ''add_point''"
    | (l) "step_type step = ''construct_line''"
    | (c) "step_type step = ''construct_circle''"
    | (i) "step_type step = ''find_intersections''"
    | (u) "step_type step \<noteq> ''add_point''" "step_type step \<noteq> ''construct_line''"
          "step_type step \<noteq> ''construct_circle''" "step_type step \<noteq> ''find_intersections''"
    by blast
  then show ?thesis
  proof cases
    case p
    with assms show ?thesis
      by (auto simp: execute_construction_step_def add_point_def uuid4_def Let_def
          deref_def update_space_def)
  next
    case l
    with assms show ?thesis
      by (auto simp: execute_construction_step_def construct_line_def uuid4_def Let_def
          deref_def update_space_def split: if_splits)
  next
    case c
    with assms show ?thesis
      by (auto simp: execute_construction_step_def construct_circle_def uuid4_def Let_def
          deref_def update_space_def split: if_splits)
  next
    case i
    with assms show ?thesis
      by (auto simp: execute_construction_step_def find_intersections_def deref_def split: if_splits)
  next
    case u
    with assms show ?thesis by (simp add: execute_construction_step_def)
  qed
qed


lemma fresh_ids_step:
  assumes "rust_binary_path svc = None" and "c < length (heap w)"
    and "execute_construction_step step c svc w = (Inr res, w1)"
    and f: "fresh_ids w c (Suc n)"
  shows "fresh_ids w1 c n"
proof -
  note s = execute_step_fallback [OF assms(1-3)]
  let ?u = "uuid_count w"
  from f have inj: "inj_on (uuid_pool w) {?u ..< ?u + Suc n}"
    and out: "\<And>k. ?u \<le> k \<Longrightarrow> k < ?u + Suc n \<Longrightarrow>
        uuid_pool w k |\<notin>| fmdom (points (deref w c)) \<and>
        uuid_pool w k |\<notin>| fmdom (lines (deref w c)) \<and>
        uuid_pool w k |\<notin>| fmdom (circles (deref w c))"
    by (simp_all add: fresh_ids_def)
  have sub: "{uuid_count w1 ..< uuid_count w1 + n} \<subseteq> {?u ..< ?u + Suc n}"
    using s by auto
  have i1: "inj_on (uuid_pool w1) {uuid_count w1 ..< uuid_count w1 + n}"
    using inj_on_subset [OF inj sub] s by simp
  have ne: "uuid_pool w k \<noteq> uuid_pool w ?u" if "Suc ?u \<le> k" "k < ?u + Suc n" for k
  proof
    assume "uuid_pool w k = uuid_pool w ?u"
    with inj that have "k = ?u" by (auto simp: inj_on_def)
    with that show False by simp
  qed
  have o1: "uuid_pool w1 k |\<notin>| fmdom (points (deref w1 c)) \<and>
        uuid_pool w1 k |\<notin>| fmdom (lines (deref w1 c)) \<and>
        uuid_pool w1 k |\<notin>| fmdom (circles (deref w1 c))"
    if k: "uuid_count w1 \<le> k" "k < uuid_count w1 + n" for k
  proof (cases "step_type step = ''find_intersections''")
    case True
    with s k out [of k] show ?thesis by simp
  next
    case False
    with s k have "Suc ?u \<le> k" "k < ?u + Suc n" by simp_all
    with s out [of k] ne [of k] show ?thesis by simp
  qed
  show ?thesis using i1 o1 by (simp add: fresh_ids_def)
qed

lemma created_ids_Cons:
  "created_ids (e # es) =
     (case ex_result e of None \<Rightarrow> created_ids es
      | Some res \<Rightarrow> (case created_id res of None \<Rightarrow> created_ids es
                      | Some i \<Rightarrow> i # created_ids es))"
  by (simp add: created_ids_def List.map_filter_simps split: option.splits)

lemma count_steps_Cons:
  "count_steps t (s # sts) = (if step_type s = t then 1 else 0) + count_steps t sts"
  by (simp add: count_steps_def)

lemma execute_loop_fallback:
  assumes "rust_binary_path svc = None" and "c < length (heap w)"
    and "execute_loop svc i sts c acc w = ((c', results), w')"
    and "list_all success results"
    and "fresh_ids w c (length sts)"
  shows "c' = c \<and> length results = length acc + length sts \<and>
         take (length acc) results = acc \<and>
         map ex_step (drop (length acc) results) = sts \<and>
         history (deref w' c) = history (deref w c) \<and>
         fcard (fmdom (points (deref w' c))) =
           fcard (fmdom (points (deref w c))) + count_steps ''add_point'' sts \<and>
         fcard (fmdom (lines (deref w' c))) =
           fcard (fmdom (lines (deref w c))) + count_steps ''construct_line'' sts \<and>
         fcard (fmdom (circles (deref w' c))) =
           fcard (fmdom (circles (deref w c))) + count_steps ''construct_circle'' sts \<and>
         uuid_pool w' = uuid_pool w \<and> uuid_count w \<le> uuid_count w' \<and>
         created_ids (drop (length acc) results) =
           map (uuid_pool w) [uuid_count w ..< uuid_count w']"
  using assms(2-)
proof (induction sts arbitrary: i acc w)
  case Nil
  then show ?case by (simp add: count_steps_def created_ids_def List.map_filter_simps)
next
  case (Cons st sts)
  obtain res w1 where s: "execute_construction_step st c svc w = (res, w1)"
    by (cases "execute_construction_step st c svc w")
  show ?case
  proof (cases res)
    case (Inl e)
    with Cons.prems(2) s have "\<not> list_all success results" by auto
    with Cons.prems(3) show ?thesis by simp
  next
    case (Inr sr)
    note st = execute_step_fallback [OF assms(1) Cons.prems(1) s [unfolded Inr]]
    define entry where "entry =
      \<lparr>ex_step_number = i + 1, ex_step = st, success = True, ex_result = Some sr,
       ex_error = None, ex_message = ''Step '' @ str_nat (i + 1) @ '' executed successfully''\<rparr>"
    from Cons.prems(2) s Inr st have
      rec: "execute_loop svc (i + 1) sts c (acc @ [entry]) w1 = ((c', results), w')"
      by (simp add: entry_def)
    have c1: "c < length (heap w1)" using st Cons.prems(1) by simp
    have fr: "fresh_ids w1 c (length sts)"
      using fresh_ids_step [OF assms(1) Cons.prems(1) s [unfolded Inr]] Cons.prems(4) by simp
    note ih = Cons.IH [OF c1 rec Cons.prems(3) fr]
    from ih have tk: "take (Suc (length acc)) results = acc @ [entry]" by simp
    define rest where "rest = drop (Suc (length acc)) results"
    have res: "results = acc @ entry # rest"
      using append_take_drop_id [of "Suc (length acc)" results] tk by (simp add: rest_def)
    have dr: "drop (length acc) results = entry # rest"
      "drop (Suc (length acc)) results = rest" by (simp_all add: res)
    have u0: "uuid_pool w (uuid_count w) |\<notin>| fmdom (points (deref w c))"
      "uuid_pool w (uuid_count w) |\<notin>| fmdom (lines (deref w c))"
      "uuid_pool w (uuid_count w) |\<notin>| fmdom (circles (deref w c))"
      using Cons.prems(4) by (simp_all add: fresh_ids_def)
    have pc: "fcard (fmdom (points (deref w1 c))) =
        fcard (fmdom (points (deref w c))) + (if step_type st = ''add_point'' then 1 else 0)"
      using st u0 by (simp add: fcard_finsert_disjoint)
    have lc: "fcard (fmdom (lines (deref w1 c))) =
        fcard (fmdom (lines (deref w c))) + (if step_type st = ''construct_line'' then 1 else 0)"
      using st u0 by (simp add: fcard_finsert_disjoint)
    have cc: "fcard (fmdom (circles (deref w1 c))) =
        fcard (fmdom (circles (deref w c))) + (if step_type st = ''construct_circle'' then 1 else 0)"
      using st u0 by (simp add: fcard_finsert_disjoint)
    have ids: "created_ids (entry # rest) = map (uuid_pool w) [uuid_count w ..< uuid_count w']"
    proof (cases "step_type st = ''find_intersections''")
      case True
      with st ih show ?thesis by (simp add: created_ids_Cons entry_def dr)
    next
      case False
      with st ih have "uuid_count w < uuid_count w'" by simp
      with False st ih show ?thesis
        by (simp add: created_ids_Cons entry_def dr upt_conv_Cons)
    qed
    have le: "uuid_count w \<le> uuid_count w'" using st ih by (simp split: if_splits)
    have e: "ex_step entry = st" by (simp add: entry_def)
    show ?thesis
      using ih st pc lc cc ids le e
      by (simp add: dr count_steps_Cons) (simp add: res)
  qed
qed


lemma execute_loop_length:
  "execute_loop svc i sts c acc w = ((c', results), w') \<Longrightarrow>
     length results \<le> length acc + length sts"
proof (induction sts arbitrary: i c acc w)
  case Nil
  then show ?case by simp
next
  case (Cons st sts)
  obtain res w1 where s: "execute_construction_step st c svc w = (res, w1)"
    by (cases "execute_construction_step st c svc w")
  show ?case
  proof (cases res)
    case (Inl e)
    with Cons.prems s show ?thesis by auto
  next
    case (Inr sr)
    define entry where "entry =
      \<lparr>ex_step_number = i + 1, ex_step = st, success = True, ex_result = Some sr,
       ex_error = None, ex_message = ''Step '' @ str_nat (i + 1) @ '' executed successfully''\<rparr>"
    from Cons.prems s Inr have
      "execute_loop svc (i + 1) sts (updated_space sr) (acc @ [entry]) w1 = ((c', results), w')"
      by (simp add: entry_def)
    from Cons.IH [OF this] show ?thesis by simp
  qed
qed

lemma all_success:
  assumes "length (filter success results) = n" and "length results \<le> n"
  shows "list_all success results"
proof (rule ccontr)
  assume "\<not> list_all success results"
  then obtain e where "e \<in> set results" "\<not> success e" by (auto simp: list_all_iff)
  then have "length (filter success results) < length results"
    by (rule length_filter_less)
  with assms show False by simp
qed

lemma execute_sequence_in_fallback:
  assumes "rust_binary_path svc = None" and "r < length (heap w)"
    and "execute_construction_sequence sq r svc w = (resp, w')"
    and "overall_success (se_summary resp)"
    and "fresh_ids w r (length (steps sq))"
  shows "history (deref w' (final_construction_space resp)) = history (deref w r) \<and>
         fcard (fmdom (points (deref w' (final_construction_space resp)))) =
           fcard (fmdom (points (deref w r))) + count_steps ''add_point'' (steps sq) \<and>
         fcard (fmdom (lines (deref w' (final_construction_space resp)))) =
           fcard (fmdom (lines (deref w r))) + count_steps ''construct_line'' (steps sq) \<and>
         fcard (fmdom (circles (deref w' (final_construction_space resp)))) =
           fcard (fmdom (circles (deref w r))) + count_steps ''construct_circle'' (steps sq) \<and>
         length (execution_results resp) = length (steps sq) \<and>
         map ex_step (execution_results resp) = steps sq \<and>
         list_all success (execution_results resp) \<and>
         created_ids (execution_results resp) =
           map (uuid_pool w) [uuid_count w ..< uuid_count w']"
proof -
  let ?c = "length (heap w)"
  let ?w0 = "snd (new_space (deref w r) w)"
  obtain c' results w1 where
    l: "execute_loop svc 0 (steps sq) ?c [] ?w0 = ((c', results), w1)"
    by (cases "execute_loop svc 0 (steps sq) ?c [] ?w0") auto
  with assms(3) have e: "w' = w1" "final_construction_space resp = c'"
    "execution_results resp = results"
    "overall_success (se_summary resp) = (length (filter success results) = length (steps sq))"
    by (auto simp: execute_construction_sequence_def new_space_def Let_def)
  have c0: "?c < length (heap ?w0)" by (simp add: new_space_def)
  have d0: "deref ?w0 ?c = deref w r" "uuid_pool ?w0 = uuid_pool w"
    "uuid_count ?w0 = uuid_count w"
    by (simp_all add: new_space_def deref_def)
  have fr: "fresh_ids ?w0 ?c (length (steps sq))"
    using assms(5) d0 by (simp add: fresh_ids_def)
  have ok: "list_all success results"
    using all_success [of results "length (steps sq)"] execute_loop_length [OF l] e assms(4)
    by simp
  from execute_loop_fallback [OF assms(1) c0 l ok fr] e d0 ok show ?thesis by simp
qed

lemma fresh_ids_world_AB: "fresh_ids world_AB 0 n"
  by (auto simp: fresh_ids_def world_AB_def space_AB_def deref_def inj_on_def)

lemmas build_defs =
  build_sequence_def fallback_service_def world_AB_def space_AB_def mk_step_def no_metadata_def
  new_space_def deref_def execute_construction_sequence_def execute_construction_step_def
  add_point_def construct_line_def construct_circle_def find_intersections_def uuid4_def
  update_space_def

subsection \<open>A sequence that succeeds, in delegated mode\<close>

lemma execute_loop_report:
  assumes "execute_loop svc i sts c acc w = ((c', results), w')"
    and "list_all success results"
  shows "length results = length acc + length sts \<and> take (length acc) results = acc \<and>
         map ex_step (drop (length acc) results) = sts"
  using assms
proof (induction sts arbitrary: i c acc w)
  case Nil
  then show ?case by simp
next
  case (Cons st sts)
  obtain res w1 where s: "execute_construction_step st c svc w = (res, w1)"
    by (cases "execute_construction_step st c svc w")
  show ?case
  proof (cases res)
    case (Inl e)
    with Cons.prems(1) s have "\<not> list_all success results" by auto
    with Cons.prems(2) show ?thesis by simp
  next
    case (Inr sr)
    define entry where "entry =
      \<lparr>ex_step_number = i + 1, ex_step = st, success = True, ex_result = Some sr,
       ex_error = None, ex_message = ''Step '' @ str_nat (i + 1) @ '' executed successfully''\<rparr>"
    from Cons.prems(1) s Inr have
      rec: "execute_loop svc (i + 1) sts (updated_space sr) (acc @ [entry]) w1
              = ((c', results), w')"
      by (simp add: entry_def)
    note ih = Cons.IH [OF rec Cons.prems(2)]
    from ih have tk: "take (Suc (length acc)) results = acc @ [entry]" by simp
    define rest where "rest = drop (Suc (length acc)) results"
    have res: "results = acc @ entry # rest"
      using append_take_drop_id [of "Suc (length acc)" results] tk by (simp add: rest_def)
    have e: "ex_step entry = st" by (simp add: entry_def)
    from ih e show ?thesis by (simp add: res)
  qed
qed

lemma execute_step_delegated:
  assumes "rust_binary_path svc = Some engine"
    and "execute_construction_step step c svc w = (Inr sr, w1)"
  shows "engine_step engine (deref w c) step = Some (deref w1 (updated_space sr)) \<and>
         updated_space sr < length (heap w1)"
proof -
  consider (p) "step_type step = ''add_point''"
    | (l) "step_type step = ''construct_line''"
    | (c) "step_type step = ''construct_circle''"
    | (i) "step_type step = ''find_intersections''"
    | (u) "step_type step \<noteq> ''add_point''" "step_type step \<noteq> ''construct_line''"
          "step_type step \<noteq> ''construct_circle''" "step_type step \<noteq> ''find_intersections''"
    by blast
  then show ?thesis
  proof cases
    case p
    with assms show ?thesis
      by (auto simp: execute_construction_step_def engine_step_def add_point_def new_space_def
          execute_rust_command_def deref_def Let_def split: sum.splits prod.splits)
  next
    case l
    with assms show ?thesis
      by (auto simp: execute_construction_step_def engine_step_def construct_line_def
          new_space_def execute_rust_command_def deref_def Let_def
          split: sum.splits prod.splits if_splits)
  next
    case c
    with assms show ?thesis
      by (auto simp: execute_construction_step_def engine_step_def construct_circle_def
          new_space_def execute_rust_command_def deref_def Let_def
          split: sum.splits prod.splits if_splits)
  next
    case i
    with assms show ?thesis
      by (auto simp: execute_construction_step_def engine_step_def find_intersections_def
          new_space_def execute_rust_command_def deref_def Let_def
          split: sum.splits prod.splits if_splits)
  next
    case u
    with assms show ?thesis by (simp add: execute_construction_step_def)
  qed
qed

lemma execute_loop_delegated:
  assumes "rust_binary_path svc = Some engine"
    and "execute_loop svc i sts c acc w = ((c', results), w')"
    and "list_all success results"
  shows "engine_run engine (deref w c) sts = Some (deref w' c')"
  using assms(2-)
proof (induction sts arbitrary: i c acc w)
  case Nil
  then show ?case by simp
next
  case (Cons st sts)
  obtain res w1 where s: "execute_construction_step st c svc w = (res, w1)"
    by (cases "execute_construction_step st c svc w")
  show ?case
  proof (cases res)
    case (Inl e)
    with Cons.prems(1) s have "\<not> list_all success results" by auto
    with Cons.prems(2) show ?thesis by simp
  next
    case (Inr sr)
    define entry where "entry =
      \<lparr>ex_step_number = i + 1, ex_step = st, success = True, ex_result = Some sr,
       ex_error = None, ex_message = ''Step '' @ str_nat (i + 1) @ '' executed successfully''\<rparr>"
    from Cons.prems(1) s Inr have
      rec: "execute_loop svc (i + 1) sts (updated_space sr) (acc @ [entry]) w1
              = ((c', results), w')"
      by (simp add: entry_def)
    from execute_step_delegated [OF assms(1) s [unfolded Inr]]
    have "engine_step engine (deref w c) st = Some (deref w1 (updated_space sr))" by simp
    with Cons.IH [OF rec Cons.prems(2)] show ?thesis by simp
  qed
qed

text \<open>
  Claim C1, as the code has it. Let all \<open>N\<close> steps of a sequence execute successfully.
  Then the report has \<open>N\<close> successful results, one for each step in order. In fallback
  mode, the identifiers generated on the way being new, the final space has the history of
  the initial space (no operation writes the history), its numbers of points, lines and
  circles are the initial ones plus the numbers of \<open>add_point\<close>, \<open>construct_line\<close> and
  \<open>construct_circle\<close> steps, and the created identifiers of the report are the generated
  identifiers in the order of execution. In delegated mode the final space is the space
  the engine returned for the last step, each step having been sent with the space
  returned for the step before, the first with the initial space.
\<close>

theorem execute_sequence_all_succeed:
  assumes "r < length (heap w)"
    and "execute_construction_sequence sq r svc w = (resp, w')"
    and "overall_success (se_summary resp)"
  shows "length (execution_results resp) = length (steps sq) \<and>
         map ex_step (execution_results resp) = steps sq \<and>
         list_all success (execution_results resp) \<and>
         (rust_binary_path svc = None \<and> fresh_ids w r (length (steps sq)) \<longrightarrow>
            history (deref w' (final_construction_space resp)) = history (deref w r) \<and>
            fcard (fmdom (points (deref w' (final_construction_space resp)))) =
              fcard (fmdom (points (deref w r))) + count_steps ''add_point'' (steps sq) \<and>
            fcard (fmdom (lines (deref w' (final_construction_space resp)))) =
              fcard (fmdom (lines (deref w r))) + count_steps ''construct_line'' (steps sq) \<and>
            fcard (fmdom (circles (deref w' (final_construction_space resp)))) =
              fcard (fmdom (circles (deref w r))) +
              count_steps ''construct_circle'' (steps sq) \<and>
            created_ids (execution_results resp) =
              map (uuid_pool w) [uuid_count w ..< uuid_count w']) \<and>
         (\<forall>engine. rust_binary_path svc = Some engine \<longrightarrow>
            engine_run engine (deref w r) (steps sq) =
              Some (deref w' (final_construction_space resp)))"
proof -
  let ?c = "length (heap w)"
  let ?w0 = "snd (new_space (deref w r) w)"
  obtain c' results w1 where
    l: "execute_loop svc 0 (steps sq) ?c [] ?w0 = ((c', results), w1)"
    by (cases "execute_loop svc 0 (steps sq) ?c [] ?w0") auto
  with assms(2) have e: "w' = w1" "final_construction_space resp = c'"
    "execution_results resp = results"
    "overall_success (se_summary resp) = (length (filter success results) = length (steps sq))"
    by (auto simp: execute_construction_sequence_def new_space_def Let_def)
  have d0: "deref ?w0 ?c = deref w r" by (simp add: new_space_def deref_def)
  have ok: "list_all success results"
    using all_success [of results "length (steps sq)"] execute_loop_length [OF l] e assms(3)
    by simp
  from execute_loop_report [OF l ok] e ok
  have rep: "length (execution_results resp) = length (steps sq) \<and>
         map ex_step (execution_results resp) = steps sq \<and>
         list_all success (execution_results resp)"
    by simp
  have fb: "history (deref w' (final_construction_space resp)) = history (deref w r) \<and>
            fcard (fmdom (points (deref w' (final_construction_space resp)))) =
              fcard (fmdom (points (deref w r))) + count_steps ''add_point'' (steps sq) \<and>
            fcard (fmdom (lines (deref w' (final_construction_space resp)))) =
              fcard (fmdom (lines (deref w r))) + count_steps ''construct_line'' (steps sq) \<and>
            fcard (fmdom (circles (deref w' (final_construction_space resp)))) =
              fcard (fmdom (circles (deref w r))) +
              count_steps ''construct_circle'' (steps sq) \<and>
            created_ids (execution_results resp) =
              map (uuid_pool w) [uuid_count w ..< uuid_count w']"
    if "rust_binary_path svc = None \<and> fresh_ids w r (length (steps sq))"
    using execute_sequence_in_fallback [OF _ assms] that by simp
  have dg: "engine_run engine (deref w r) (steps sq) =
              Some (deref w' (final_construction_space resp))"
    if "rust_binary_path svc = Some engine" for engine
    using execute_loop_delegated [OF that l ok] e d0 by simp
  show ?thesis using rep fb dg by blast
qed


lemmas drawing_defs =
  drawing_service_def drawing_engine_def demo_engine_def execute_rust_command_def

theorem execute_sequence_all_succeed_witness:
  "overall_success (se_summary (fst
     (execute_construction_sequence build_sequence 0 fallback_service world_AB))) \<and>
   history (deref (snd (execute_construction_sequence build_sequence 0 fallback_service world_AB))
     (final_construction_space (fst
        (execute_construction_sequence build_sequence 0 fallback_service world_AB)))) = [] \<and>
   fcard (fmdom (points
     (deref (snd (execute_construction_sequence build_sequence 0 fallback_service world_AB))
     (final_construction_space (fst
        (execute_construction_sequence build_sequence 0 fallback_service world_AB)))))) = 3 \<and>
   created_ids (execution_results (fst
     (execute_construction_sequence build_sequence 0 fallback_service world_AB))) =
     [''u'', ''uu'', ''uuu''] \<and>
   map ex_step (execution_results (fst
     (execute_construction_sequence build_sequence 0 fallback_service world_AB))) =
     steps build_sequence \<and>
   overall_success (se_summary (fst
     (execute_construction_sequence build_sequence 0 drawing_service world_AB))) \<and>
   final_construction_space (fst
     (execute_construction_sequence build_sequence 0 drawing_service world_AB)) = 5 \<and>
   engine_run drawing_engine space_AB (steps build_sequence) =
     Some (deref (snd (execute_construction_sequence build_sequence 0 drawing_service world_AB))
       5) \<and>
   fmdom (lines
     (deref (snd (execute_construction_sequence build_sequence 0 drawing_service world_AB)) 5)) =
     {|''L''|}"
proof -
  let ?X = "execute_construction_sequence build_sequence 0 fallback_service world_AB"
  let ?Y = "execute_construction_sequence build_sequence 0 drawing_service world_AB"
  have s: "overall_success (se_summary (fst ?X))"
    by (simp add: build_defs Let_def)
  have u: "uuid_count (snd ?X) = 3"
    by (simp add: build_defs Let_def)
  have p: "fcard (fmdom (points (deref world_AB 0))) = 2" "history (deref world_AB 0) = []"
    "uuid_count world_AB = 0" "uuid_pool world_AB = (\<lambda>k. replicate (Suc k) (CHR ''u''))"
    "deref world_AB 0 = space_AB"
    by (simp_all add: world_AB_def space_AB_def deref_def fcard_finsert_if)
  have n: "count_steps ''add_point'' (steps build_sequence) = 1"
    by (simp add: count_steps_def build_sequence_def mk_step_def)
  have m: "rust_binary_path fallback_service = None" "0 < length (heap world_AB)"
    "rust_binary_path drawing_service = Some drawing_engine"
    by (simp_all add: fallback_service_def world_AB_def drawing_service_def)
  note t = execute_sequence_all_succeed [OF m(2), of build_sequence fallback_service
      "fst ?X" "snd ?X", OF _ s]
  have t': "history (deref (snd ?X) (final_construction_space (fst ?X))) = history (deref world_AB 0)"
    "fcard (fmdom (points (deref (snd ?X) (final_construction_space (fst ?X))))) =
       fcard (fmdom (points (deref world_AB 0))) + count_steps ''add_point'' (steps build_sequence)"
    "created_ids (execution_results (fst ?X)) =
       map (uuid_pool world_AB) [uuid_count world_AB ..< uuid_count (snd ?X)]"
    "map ex_step (execution_results (fst ?X)) = steps build_sequence"
    using t m(1) fresh_ids_world_AB by simp_all
  have ids: "map (uuid_pool world_AB) [uuid_count world_AB ..< uuid_count (snd ?X)] =
      [''u'', ''uu'', ''uuu'']"
    unfolding u p by (simp add: upt_rec)
  have sy: "overall_success (se_summary (fst ?Y))"
    by (simp add: build_defs drawing_defs Let_def)
  have fy: "final_construction_space (fst ?Y) = 5"
    by (simp add: build_defs drawing_defs Let_def)
  have ly: "fmdom (lines (deref (snd ?Y) 5)) = {|''L''|}"
    by (simp add: build_defs drawing_defs Let_def)
  note ty = execute_sequence_all_succeed [OF m(2), of build_sequence drawing_service
      "fst ?Y" "snd ?Y", OF _ sy]
  have ty': "engine_run drawing_engine space_AB (steps build_sequence) =
      Some (deref (snd ?Y) 5)"
    using ty m(3) fy p(5) by simp
  show ?thesis using s t' p(1,2) n ids sy fy ty' ly by simp
qed

text \<open>All four steps succeed, and the history of the final space is still empty.\<close>

theorem execute_sequence_history_counterexample:
  "rust_binary_path fallback_service = None \<and>
   overall_success (se_summary (fst
     (execute_construction_sequence build_sequence 0 fallback_service world_AB))) \<and>
   length (steps build_sequence) = 4 \<and>
   length (history (deref world_AB 0)) = 0 \<and>
   length (history
     (deref (snd (execute_construction_sequence build_sequence 0 fallback_service world_AB))
     (final_construction_space (fst
        (execute_construction_sequence build_sequence 0 fallback_service world_AB))))) = 0"
  by (simp add: build_defs Let_def)

end
